theory Spec2Isabelle
  imports Complex_Main
begin

section \<open>Scalars: floating-point values with their special values\<close>

text \<open>
  The module computes on \<^verbatim>\<open>torch\<close> tensors of floating-point numbers. A scalar is
  modelled as a real number or one of the three special values of IEEE 754: the
  arithmetic on finite values is exact (rounding, overflow and underflow are not
  modelled), the special values arise and propagate as IEEE 754 prescribes
  (\<open>0/0 = NaN\<close>, \<open>x/0 = \<plusminus>Inf\<close>, \<open>0 * Inf = NaN\<close>, \<open>Inf - Inf = NaN\<close>). The two zeros are
  identified; the only divisors of the module are the constant \<open>\<pi>\<close> and the result of
  \<^verbatim>\<open>torch.norm\<close>, which is never the negative zero, so a zero divisor is \<open>+0\<close>.
\<close>

datatype fval = Fin real | PInf | NInf | NaN

fun fneg :: "fval \<Rightarrow> fval" where
  "fneg (Fin x) = Fin (- x)"
| "fneg PInf = NInf"
| "fneg NInf = PInf"
| "fneg NaN = NaN"

fun fadd :: "fval \<Rightarrow> fval \<Rightarrow> fval" where
  "fadd (Fin x) (Fin y) = Fin (x + y)"
| "fadd NaN _ = NaN"
| "fadd _ NaN = NaN"
| "fadd PInf NInf = NaN"
| "fadd NInf PInf = NaN"
| "fadd PInf _ = PInf"
| "fadd _ PInf = PInf"
| "fadd NInf _ = NInf"
| "fadd _ NInf = NInf"

definition fsub :: "fval \<Rightarrow> fval \<Rightarrow> fval" where
  "fsub x y = fadd x (fneg y)"

fun fmul :: "fval \<Rightarrow> fval \<Rightarrow> fval" where
  "fmul (Fin x) (Fin y) = Fin (x * y)"
| "fmul NaN _ = NaN"
| "fmul _ NaN = NaN"
| "fmul PInf PInf = PInf"
| "fmul PInf NInf = NInf"
| "fmul NInf PInf = NInf"
| "fmul NInf NInf = PInf"
| "fmul PInf (Fin y) = (if y = 0 then NaN else if 0 < y then PInf else NInf)"
| "fmul NInf (Fin y) = (if y = 0 then NaN else if 0 < y then NInf else PInf)"
| "fmul (Fin x) PInf = (if x = 0 then NaN else if 0 < x then PInf else NInf)"
| "fmul (Fin x) NInf = (if x = 0 then NaN else if 0 < x then NInf else PInf)"

fun fdiv :: "fval \<Rightarrow> fval \<Rightarrow> fval" where
  "fdiv (Fin x) (Fin y) =
     (if y \<noteq> 0 then Fin (x / y)
      else if x = 0 then NaN else if 0 < x then PInf else NInf)"
| "fdiv NaN _ = NaN"
| "fdiv _ NaN = NaN"
| "fdiv (Fin x) PInf = Fin 0"
| "fdiv (Fin x) NInf = Fin 0"
| "fdiv PInf (Fin y) = (if 0 \<le> y then PInf else NInf)"
| "fdiv NInf (Fin y) = (if 0 \<le> y then NInf else PInf)"
| "fdiv PInf PInf = NaN"
| "fdiv PInf NInf = NaN"
| "fdiv NInf PInf = NaN"
| "fdiv NInf NInf = NaN"

fun fsqrt :: "fval \<Rightarrow> fval" where
  "fsqrt (Fin x) = (if 0 \<le> x then Fin (sqrt x) else NaN)"
| "fsqrt PInf = PInf"
| "fsqrt NInf = NaN"
| "fsqrt NaN = NaN"

fun fsin :: "fval \<Rightarrow> fval" where
  "fsin (Fin x) = Fin (sin x)"
| "fsin _ = NaN"

fun fcos :: "fval \<Rightarrow> fval" where
  "fcos (Fin x) = Fin (cos x)"
| "fcos _ = NaN"

fun farccos :: "fval \<Rightarrow> fval" where
  "farccos (Fin x) = (if - 1 \<le> x \<and> x \<le> 1 then Fin (arccos x) else NaN)"
| "farccos _ = NaN"

text \<open>\<^verbatim>\<open>torch.clamp(x, lo, hi)\<close> is \<open>min (max x lo) hi\<close> and keeps a NaN.\<close>

fun fclamp :: "real \<Rightarrow> real \<Rightarrow> fval \<Rightarrow> fval" where
  "fclamp lo hi (Fin x) = Fin (min (max x lo) hi)"
| "fclamp lo hi PInf = Fin hi"
| "fclamp lo hi NInf = Fin (min lo hi)"
| "fclamp lo hi NaN = NaN"

section \<open>Tensors, errors and the operations of the tensor library\<close>

text \<open>
  A tensor is its shape and its elements in row-major order. A Python number passed
  where a tensor is expected is the tensor of shape \<open>[]\<close> (\<^verbatim>\<open>torch.tensor(x)\<close>).
  Element types and devices are not modelled.
\<close>

record tensor =
  shape :: "nat list"
  data :: "fval list"

datatype error = RuntimeError | IndexError | AssertionError

definition and_then :: "error + 'a \<Rightarrow> ('a \<Rightarrow> error + 'b) \<Rightarrow> error + 'b" where
  "and_then r f = (case r of Inl e \<Rightarrow> Inl e | Inr x \<Rightarrow> f x)"

definition wf :: "tensor \<Rightarrow> bool" where
  "wf t = (length (data t) = prod_list (shape t))"

definition scalar :: "fval \<Rightarrow> tensor" where
  "scalar x = \<lparr>shape = [], data = [x]\<rparr>"

definition vec3 :: "fval \<Rightarrow> fval \<Rightarrow> fval \<Rightarrow> tensor" where
  "vec3 x y z = \<lparr>shape = [3], data = [x, y, z]\<rparr>"

fun row3 :: "fval \<times> fval \<times> fval \<Rightarrow> fval list" where
  "row3 (x, y, z) = [x, y, z]"

definition batch3 :: "(fval \<times> fval \<times> fval) list \<Rightarrow> tensor" where
  "batch3 rows = \<lparr>shape = [length rows, 3], data = concat (map row3 rows)\<rparr>"

definition zeros :: "nat list \<Rightarrow> tensor" where
  "zeros s = \<lparr>shape = s, data = replicate (prod_list s) (Fin 0)\<rparr>"

text \<open>The \<open>n\<close> consecutive pieces of length \<open>k\<close> of a list.\<close>

definition chunks :: "nat \<Rightarrow> nat \<Rightarrow> 'a list \<Rightarrow> 'a list list" where
  "chunks k n d = map (\<lambda>i. take k (drop (i * k) d)) [0..<n]"

text \<open>
  Broadcasting aligns shapes at their last dimension; two sizes are compatible when
  they are equal or one of them is 1. The functions below work on reversed shapes.
\<close>

fun bshape :: "nat list \<Rightarrow> nat list \<Rightarrow> nat list option" where
  "bshape [] ys = Some ys"
| "bshape xs [] = Some xs"
| "bshape (x # xs) (y # ys) =
     (if x = y \<or> y = 1 then map_option ((#) x) (bshape xs ys)
      else if x = 1 then map_option ((#) y) (bshape xs ys)
      else None)"

definition broadcast_shapes :: "nat list \<Rightarrow> nat list \<Rightarrow> nat list option" where
  "broadcast_shapes a b = map_option rev (bshape (rev a) (rev b))"

fun expandable_rev :: "nat list \<Rightarrow> nat list \<Rightarrow> bool" where
  "expandable_rev [] ts = True"
| "expandable_rev (s # ss) [] = False"
| "expandable_rev (s # ss) (t # ts) = ((s = t \<or> s = 1) \<and> expandable_rev ss ts)"

definition expandable :: "nat list \<Rightarrow> nat list \<Rightarrow> bool" where
  "expandable s t = expandable_rev (rev s) (rev t)"

text \<open>The elements of a tensor of shape \<open>ss\<close> expanded to the shape \<open>ts\<close>.\<close>

fun expand_data :: "nat list \<Rightarrow> nat list \<Rightarrow> 'a list \<Rightarrow> 'a list" where
  "expand_data ss [] d = d"
| "expand_data ss (t # ts) d =
     (if length ss \<le> length ts then concat (replicate t (expand_data ss ts d))
      else if hd ss = t then
        concat (map (expand_data (tl ss) ts) (chunks (prod_list (tl ss)) t d))
      else concat (replicate t (expand_data (tl ss) ts d)))"

definition unop :: "(fval \<Rightarrow> fval) \<Rightarrow> tensor \<Rightarrow> tensor" where
  "unop f t = \<lparr>shape = shape t, data = map f (data t)\<rparr>"

definition binop :: "(fval \<Rightarrow> fval \<Rightarrow> fval) \<Rightarrow> tensor \<Rightarrow> tensor \<Rightarrow> error + tensor" where
  "binop f a b =
     (case broadcast_shapes (shape a) (shape b) of
        None \<Rightarrow> Inl RuntimeError
      | Some s \<Rightarrow>
          Inr \<lparr>shape = s,
               data = map2 f (expand_data (shape a) s (data a))
                             (expand_data (shape b) s (data b))\<rparr>)"

text \<open>
  An assignment \<^verbatim>\<open>dst[...] = src\<close> drops the leading dimensions of size 1 of
  \<open>src\<close> and expands the rest to the shape of the destination, or fails.
\<close>

definition copy_src :: "nat list \<Rightarrow> tensor \<Rightarrow> error + fval list" where
  "copy_src dst_shape src =
     (let s = dropWhile (\<lambda>n. n = 1) (shape src)
      in if expandable s dst_shape then Inr (expand_data s dst_shape (data src))
         else Inl RuntimeError)"

text \<open>\<^verbatim>\<open>dst[a:b] = src\<close> for a tensor \<open>dst\<close> of one dimension.\<close>

definition set_slice :: "tensor \<Rightarrow> nat \<Rightarrow> nat \<Rightarrow> tensor \<Rightarrow> error + tensor" where
  "set_slice dst a b src =
     and_then (copy_src [b - a] src)
       (\<lambda>d. Inr (dst\<lparr>data := take a (data dst) @ d @ drop b (data dst)\<rparr>))"

text \<open>\<^verbatim>\<open>torch.norm(t, dim=-1, keepdim=True)\<close>: the Euclidean norm along the last dimension.\<close>

definition vector_norm :: "fval list \<Rightarrow> fval" where
  "vector_norm xs = fsqrt (foldl fadd (Fin 0) (map (\<lambda>x. fmul x x) xs))"

definition norm_keepdim :: "tensor \<Rightarrow> tensor" where
  "norm_keepdim t =
     (case rev (shape t) of
        [] \<Rightarrow> \<lparr>shape = [], data = map (\<lambda>x. vector_norm [x]) (data t)\<rparr>
      | k # rs \<Rightarrow>
          \<lparr>shape = rev (1 # rs), data = map vector_norm (chunks k (prod_list rs) (data t))\<rparr>)"

text \<open>\<^verbatim>\<open>a.expand_as(b)\<close>.\<close>

definition expand_as :: "tensor \<Rightarrow> tensor \<Rightarrow> error + tensor" where
  "expand_as a b =
     (if expandable (shape a) (shape b)
      then Inr \<lparr>shape = shape b, data = expand_data (shape a) (shape b) (data a)\<rparr>
      else Inl RuntimeError)"

text \<open>\<^verbatim>\<open>torch.cross(a, b, dim=-1)\<close>: the last dimension of both has size 3.\<close>

definition cross3 :: "fval list \<Rightarrow> fval list \<Rightarrow> fval list" where
  "cross3 a b =
     [fsub (fmul (a ! 1) (b ! 2)) (fmul (a ! 2) (b ! 1)),
      fsub (fmul (a ! 2) (b ! 0)) (fmul (a ! 0) (b ! 2)),
      fsub (fmul (a ! 0) (b ! 1)) (fmul (a ! 1) (b ! 0))]"

definition cross :: "tensor \<Rightarrow> tensor \<Rightarrow> error + tensor" where
  "cross a b =
     (if shape a = [] \<or> shape b = [] then Inl IndexError
      else if last (shape a) \<noteq> 3 \<or> last (shape b) \<noteq> 3 then Inl RuntimeError
      else case broadcast_shapes (shape a) (shape b) of
        None \<Rightarrow> Inl RuntimeError
      | Some s \<Rightarrow>
          Inr \<lparr>shape = s,
               data = concat (map2 cross3
                 (chunks 3 (prod_list (butlast s)) (expand_data (shape a) s (data a)))
                 (chunks 3 (prod_list (butlast s)) (expand_data (shape b) s (data b))))\<rparr>)"

text \<open>\<^verbatim>\<open>torch.stack((a, b, c), axis=-1)\<close>: three tensors of one shape, a new last dimension.\<close>

definition stack_last :: "tensor \<Rightarrow> tensor \<Rightarrow> tensor \<Rightarrow> error + tensor" where
  "stack_last a b c =
     (if shape a = shape b \<and> shape b = shape c
      then Inr \<lparr>shape = shape a @ [3],
                data = concat (map row3 (zip (data a) (zip (data b) (data c))))\<rparr>
      else Inl RuntimeError)"

text \<open>\<^verbatim>\<open>torch.eye(4).unsqueeze(0).repeat(n, 1, 1)\<close>.\<close>

definition eye4 :: "fval list" where
  "eye4 = map Fin [1, 0, 0, 0,  0, 1, 0, 0,  0, 0, 1, 0,  0, 0, 0, 1]"

definition eye4_repeat :: "nat \<Rightarrow> tensor" where
  "eye4_repeat n = \<lparr>shape = [n, 4, 4], data = concat (replicate n eye4)\<rparr>"

text \<open>
  \<^verbatim>\<open>m[:, :3, :3] = src\<close> and \<^verbatim>\<open>m[:, :3, 3] = src\<close> for a batch \<open>m\<close> of 4x4 matrices:
  within each matrix the 3x3 block, or the first three entries of the last column,
  are replaced.
\<close>

definition put_block :: "fval list \<Rightarrow> fval list \<Rightarrow> fval list" where
  "put_block old new =
     [new ! 0, new ! 1, new ! 2, old ! 3,
      new ! 3, new ! 4, new ! 5, old ! 7,
      new ! 6, new ! 7, new ! 8, old ! 11,
      old ! 12, old ! 13, old ! 14, old ! 15]"

definition put_column :: "fval list \<Rightarrow> fval list \<Rightarrow> fval list" where
  "put_column old new =
     [old ! 0, old ! 1, old ! 2, new ! 0,
      old ! 4, old ! 5, old ! 6, new ! 1,
      old ! 8, old ! 9, old ! 10, new ! 2,
      old ! 12, old ! 13, old ! 14, old ! 15]"

definition set_block :: "tensor \<Rightarrow> tensor \<Rightarrow> error + tensor" where
  "set_block m src =
     (let n = hd (shape m)
      in and_then (copy_src [n, 3, 3] src)
           (\<lambda>d. Inr (m\<lparr>data := concat (map2 put_block (chunks 16 n (data m)) (chunks 9 n d))\<rparr>)))"

definition set_column :: "tensor \<Rightarrow> tensor \<Rightarrow> error + tensor" where
  "set_column m src =
     (let n = hd (shape m)
      in and_then (copy_src [n, 3] src)
           (\<lambda>d. Inr (m\<lparr>data := concat (map2 put_column (chunks 16 n (data m)) (chunks 3 n d))\<rparr>)))"

text \<open>The product \<^verbatim>\<open>a @ b\<close> of two batches of 4x4 matrices of one batch size.\<close>

definition dot4 :: "fval list \<Rightarrow> fval list \<Rightarrow> fval" where
  "dot4 r c =
     fadd (fadd (fadd (fmul (r ! 0) (c ! 0)) (fmul (r ! 1) (c ! 1))) (fmul (r ! 2) (c ! 2)))
          (fmul (r ! 3) (c ! 3))"

definition mm4 :: "fval list \<Rightarrow> fval list \<Rightarrow> fval list" where
  "mm4 a b =
     concat (map (\<lambda>i. map (\<lambda>j. dot4 (take 4 (drop (4 * i) a)) [b ! j, b ! (4 + j), b ! (8 + j), b ! (12 + j)])
                          [0, 1, 2, 3])
                 [0, 1, 2, 3])"

definition matmul :: "tensor \<Rightarrow> tensor \<Rightarrow> error + tensor" where
  "matmul a b =
     (if shape a = shape b \<and> length (shape a) = 3 \<and> tl (shape a) = [4, 4]
      then Inr \<lparr>shape = shape a,
                data = concat (map2 mm4 (chunks 16 (hd (shape a)) (data a))
                                        (chunks 16 (hd (shape a)) (data b)))\<rparr>
      else Inl RuntimeError)"

section \<open>The module \<^verbatim>\<open>viz_utils/camera_utils.py\<close>\<close>

definition normalize_vecs :: "tensor \<Rightarrow> error + tensor" where
  "normalize_vecs vectors = binop fdiv vectors (norm_keepdim vectors)"

definition get_origin :: "tensor \<Rightarrow> tensor \<Rightarrow> tensor \<Rightarrow> error + tensor" where
  "get_origin horizontal_mean vertical_mean radius =
     (let h = horizontal_mean;
          v = vertical_mean;
          v = unop (fclamp (1 / 100000) (pi - 1 / 100000)) v;
          theta = h;
          v = unop (\<lambda>x. fdiv x (Fin pi)) v;
          phi = unop farccos (unop (\<lambda>x. fsub (Fin 1) (fmul (Fin 2) x)) v);
          camera_origins = zeros [3]
      in and_then (binop fmul radius (unop fsin phi)) (\<lambda>a.
         and_then (binop fmul a (unop fcos (unop (fsub (Fin pi)) theta))) (\<lambda>x.
         and_then (set_slice camera_origins 0 1 x) (\<lambda>camera_origins.
         and_then (binop fmul radius (unop fsin phi)) (\<lambda>a.
         and_then (binop fmul a (unop fsin (unop (fsub (Fin pi)) theta))) (\<lambda>z.
         and_then (set_slice camera_origins 2 3 z) (\<lambda>camera_origins.
         and_then (binop fmul radius (unop fcos phi)) (\<lambda>y.
         set_slice camera_origins 1 2 y))))))))"

definition get_forward_vector ::
  "tensor \<Rightarrow> tensor \<Rightarrow> tensor \<Rightarrow> tensor \<Rightarrow> tensor option \<Rightarrow> error + tensor" where
  "get_forward_vector lookat_position horizontal_mean vertical_mean radius camera_origins =
     and_then (case camera_origins of
                 None \<Rightarrow> get_origin horizontal_mean vertical_mean radius
               | Some c \<Rightarrow> Inr c) (\<lambda>camera_origins.
     and_then (binop fsub lookat_position camera_origins) normalize_vecs)"

definition create_cam2world_matrix :: "tensor \<Rightarrow> tensor \<Rightarrow> tensor \<Rightarrow> error + tensor" where
  "create_cam2world_matrix forward_vector origin up_vector =
     and_then (normalize_vecs forward_vector) (\<lambda>forward_vector.
     and_then (expand_as up_vector forward_vector) (\<lambda>up_vector.
     and_then (cross up_vector forward_vector) (\<lambda>c.
     and_then (normalize_vecs c) (\<lambda>n.
     let right_vector = unop fneg n in
     and_then (cross forward_vector right_vector) (\<lambda>c.
     and_then (normalize_vecs c) (\<lambda>up_vector.
     case shape forward_vector of
       [] \<Rightarrow> Inl IndexError
     | n # _ \<Rightarrow>
         let rotation_matrix = eye4_repeat n in
         and_then (stack_last right_vector up_vector forward_vector) (\<lambda>s.
         and_then (set_block rotation_matrix s) (\<lambda>rotation_matrix.
         let translation_matrix = eye4_repeat n in
         and_then (set_column translation_matrix origin) (\<lambda>translation_matrix.
         and_then (matmul translation_matrix rotation_matrix) (\<lambda>cam2world.
         if drop 1 (shape cam2world) = [4, 4] then Inr cam2world
         else Inl AssertionError))))))))))"

text \<open>
  \<^verbatim>\<open>LookAtPoseSampler.sample\<close>; the final \<^verbatim>\<open>.to(device)\<close> moves the result and is not
  modelled.
\<close>

definition sample :: "tensor \<Rightarrow> tensor \<Rightarrow> tensor \<Rightarrow> tensor \<Rightarrow> tensor \<Rightarrow> error + tensor" where
  "sample horizontal_mean vertical_mean lookat_position radius up_vector =
     and_then (get_origin horizontal_mean vertical_mean radius) (\<lambda>camera_origins.
     and_then (get_forward_vector lookat_position horizontal_mean vertical_mean radius
                 (Some camera_origins)) (\<lambda>forward_vectors.
     create_cam2world_matrix forward_vectors camera_origins up_vector))"

section \<open>Reading the results\<close>

text \<open>
  A tensor whose first dimension runs over a list \<open>xs\<close>: the entry for \<open>x\<close> has the
  shape \<open>s\<close> and the elements \<open>A x\<close>.
\<close>

definition rows_tensor :: "nat list \<Rightarrow> ('x \<Rightarrow> fval list) \<Rightarrow> 'x list \<Rightarrow> tensor" where
  "rows_tensor s A xs = \<lparr>shape = length xs # s, data = concat (map A xs)\<rparr>"

text \<open>What the functions compute for one vector, or one pose, of a batch.\<close>

definition normalize_row :: "fval list \<Rightarrow> fval list" where
  "normalize_row v = map (\<lambda>a. fdiv a (vector_norm v)) v"

definition stack_row :: "fval list \<Rightarrow> fval list \<Rightarrow> fval list \<Rightarrow> fval list" where
  "stack_row a b c = concat (map row3 (zip a (zip b c)))"

definition pose_matrix :: "fval list \<Rightarrow> fval list \<Rightarrow> fval list \<Rightarrow> fval list" where
  "pose_matrix u f orig =
     (let forward = normalize_row f;
          right = map fneg (normalize_row (cross3 u forward));
          up = normalize_row (cross3 forward right)
      in mm4 (put_column eye4 orig) (put_block eye4 (stack_row right up forward)))"

text \<open>Entry \<open>(i, j)\<close> of matrix \<open>b\<close> of a batch of 4x4 matrices, and column \<open>j\<close> of its 3x3 block.\<close>

definition entry :: "tensor \<Rightarrow> nat \<Rightarrow> nat \<Rightarrow> nat \<Rightarrow> fval" where
  "entry m b i j = data m ! (16 * b + (4 * i + j))"

definition column :: "tensor \<Rightarrow> nat \<Rightarrow> nat \<Rightarrow> fval list" where
  "column m b j = [entry m b 0 j, entry m b 1 j, entry m b 2 j]"

text \<open>Matrix \<open>b\<close> of a batch applied to a point in homogeneous coordinates.\<close>

definition transform :: "tensor \<Rightarrow> nat \<Rightarrow> fval list \<Rightarrow> fval list" where
  "transform m b p =
     map (\<lambda>i. dot4 [entry m b i 0, entry m b i 1, entry m b i 2, entry m b i 3] p) [0, 1, 2, 3]"

text \<open>Row \<open>b\<close> of a batch, as a batch of one row: \<^verbatim>\<open>t[b:b+1]\<close>.\<close>

definition select :: "nat \<Rightarrow> tensor \<Rightarrow> tensor" where
  "select b t =
     (let k = prod_list (tl (shape t))
      in \<lparr>shape = 1 # tl (shape t), data = take k (drop (b * k) (data t))\<rparr>)"

text \<open>A tensor with one element: every dimension has size 1.\<close>

definition single :: "tensor \<Rightarrow> bool" where
  "single t = list_all (\<lambda>k. k = 1) (shape t)"

text \<open>The outcome of a call as far as shapes go: the error, or the shape of the result.\<close>

definition outcome :: "error + tensor \<Rightarrow> error + nat list" where
  "outcome r = (case r of Inl e \<Rightarrow> Inl e | Inr t \<Rightarrow> Inr (shape t))"

fun is_fin :: "fval \<Rightarrow> bool" where
  "is_fin (Fin x) = True"
| "is_fin _ = False"



section \<open>Auxiliary facts\<close>

subsection \<open>Lists and pieces of lists\<close>

lemma and_then_simps [simp]: "and_then (Inl e) f = Inl e" "and_then (Inr x) f = f x"
  by (simp_all add: and_then_def)

lemma chunks_0 [simp]: "chunks k 0 d = []"
  by (simp add: chunks_def)

lemma chunks_Suc: "chunks k (Suc n) d = take k d # chunks k n (drop k d)"
proof -
  have "[0..<Suc n] = 0 # map Suc [0..<n]"
    by (simp add: upt_conv_Cons map_Suc_upt del: upt_Suc)
  then show ?thesis
    by (simp add: chunks_def comp_def add.commute del: upt_Suc)
qed

lemma chunks_concat_map:
  "(\<And>x. x \<in> set xs \<Longrightarrow> length (A x) = k) \<Longrightarrow> chunks k (length xs) (concat (map A xs)) = map A xs"
  by (induction xs) (simp_all add: chunks_Suc)

lemma chunks_concat_replicate:
  "length c = k \<Longrightarrow> chunks k n (concat (replicate n c)) = replicate n c"
  by (induction n) (simp_all add: chunks_Suc)

lemma map2_concat_map:
  "(\<And>x. x \<in> set xs \<Longrightarrow> length (A x) = length (B x)) \<Longrightarrow>
   map2 f (concat (map A xs)) (concat (map B xs)) = concat (map (\<lambda>x. map2 f (A x) (B x)) xs)"
  by (induction xs) simp_all

lemma map2_map_map: "map2 f (map A xs) (map B xs) = map (\<lambda>x. f (A x) (B x)) xs"
  by (induction xs) simp_all

lemma length_chunks [simp]: "length (chunks k n d) = n"
  by (simp add: chunks_def)

lemma concat_chunks: "length d = n * k \<Longrightarrow> concat (chunks k n d) = d"
proof (induction n arbitrary: d)
  case 0
  then show ?case by simp
next
  case (Suc n)
  then have "concat (chunks k n (drop k d)) = drop k d" by simp
  then show ?case by (simp add: chunks_Suc)
qed

lemma chunk_lengths: "length d = n * k \<Longrightarrow> c \<in> set (chunks k n d) \<Longrightarrow> length c = k"
proof (induction n arbitrary: d)
  case 0
  then show ?case by simp
next
  case (Suc n)
  have "length (drop k d) = n * k" using Suc.prems(1) by simp
  with Suc.IH have "c \<in> set (chunks k n (drop k d)) \<Longrightarrow> length c = k" by blast
  with Suc.prems show ?case by (auto simp: chunks_Suc)
qed

lemma expand_data_same: "length d = prod_list s \<Longrightarrow> expand_data s s d = d"
proof (induction s arbitrary: d)
  case Nil
  then show ?case by simp
next
  case (Cons t ts)
  have len: "length d = t * prod_list ts" using Cons.prems by simp
  have "map (expand_data ts ts) (chunks (prod_list ts) t d) = chunks (prod_list ts) t d"
    by (rule map_idI) (simp add: Cons.IH chunk_lengths [OF len])
  then show ?case by (simp add: concat_chunks [OF len])
qed

subsection \<open>Batches of vectors\<close>

lemma nth_concat_map:
  "(\<And>x. x \<in> set xs \<Longrightarrow> length (G x) = k) \<Longrightarrow> b < length xs \<Longrightarrow> i < k \<Longrightarrow>
   concat (map G xs) ! (k * b + i) = G (xs ! b) ! i"
proof (induction xs arbitrary: b)
  case Nil
  then show ?case by simp
next
  case (Cons x xs)
  show ?case
  proof (cases b)
    case 0
    with Cons.prems show ?thesis by (simp add: nth_append)
  next
    case (Suc b')
    have "concat (map G xs) ! (k * b' + i) = G (xs ! b') ! i"
      using Cons.prems Suc by (intro Cons.IH) auto
    moreover have "length (G x) = k" using Cons.prems by simp
    ultimately show ?thesis using Suc by (simp add: nth_append add.assoc)
  qed
qed

lemma batch3_rows: "batch3 rows = rows_tensor [3] row3 rows"
  by (simp add: batch3_def rows_tensor_def)

lemma length_row3 [simp]: "length (row3 r) = 3"
  by (cases r) simp

lemma eye4_repeat_rows: "eye4_repeat (length xs) = rows_tensor [4, 4] (\<lambda>_. eye4) xs"
  by (simp add: eye4_repeat_def rows_tensor_def map_replicate_const)

lemma unop_rows: "unop f (rows_tensor s A xs) = rows_tensor s (\<lambda>x. map f (A x)) xs"
  by (simp add: unop_def rows_tensor_def map_concat comp_def)


lemma norm_keepdim_rows:
  assumes "\<And>x. x \<in> set xs \<Longrightarrow> length (A x) = 3"
  shows "norm_keepdim (rows_tensor [3] A xs) = rows_tensor [1] (\<lambda>x. [vector_norm (A x)]) xs"
  using assms by (simp add: norm_keepdim_def rows_tensor_def chunks_concat_map comp_def)

lemma expand_13: "expand_data [1] [3] [x] = [x, x, x]"
  by (simp add: numeral_3_eq_3)

lemma chunks_1: "chunks (Suc 0) (length xs) (map g xs) = map (\<lambda>x. [g x]) xs"
  by (induction xs) (simp_all add: chunks_Suc)

lemma expand_col:
  "expand_data [length xs, Suc 0] [length xs, 3] (map g xs) = concat (map (\<lambda>x. [g x, g x, g x]) xs)"
  by (simp add: chunks_1 comp_def numeral_3_eq_3)

lemma normalize_vecs_rows:
  assumes "\<And>x. x \<in> set xs \<Longrightarrow> length (A x) = 3"
  shows "normalize_vecs (rows_tensor [3] A xs) = Inr (rows_tensor [3] (\<lambda>x. normalize_row (A x)) xs)"
proof -
  have len: "length (concat (map A xs)) = length xs * 3"
    using assms by (induction xs) simp_all
  have e1: "expand_data [length xs, 3] [length xs, 3] (concat (map A xs)) = concat (map A xs)"
    by (rule expand_data_same) (simp add: len)
  have m: "map2 fdiv (concat (map A xs)) (concat (map (\<lambda>x. [vector_norm (A x), vector_norm (A x), vector_norm (A x)]) xs))
      = concat (map (\<lambda>x. map2 fdiv (A x) [vector_norm (A x), vector_norm (A x), vector_norm (A x)]) xs)"
    by (rule map2_concat_map) (simp add: assms)
  have r: "map2 fdiv (A x) [vector_norm (A x), vector_norm (A x), vector_norm (A x)] = normalize_row (A x)"
    if "x \<in> set xs" for x
  proof -
    from that have "length (A x) = 3" by (rule assms)
    then obtain a b c where "A x = [a, b, c]"
      by (auto simp: length_Suc_conv numeral_3_eq_3)
    then show ?thesis
      by (simp add: normalize_row_def)
  qed
  have bs: "broadcast_shapes [length xs, 3] [length xs, Suc 0] = Some [length xs, 3]"
    by (simp add: broadcast_shapes_def)
  have nk: "norm_keepdim (rows_tensor [3] A xs) = rows_tensor [1] (\<lambda>x. [vector_norm (A x)]) xs"
    by (rule norm_keepdim_rows) (rule assms)
  have "normalize_vecs (rows_tensor [3] A xs) =
      binop fdiv (rows_tensor [3] A xs) (rows_tensor [1] (\<lambda>x. [vector_norm (A x)]) xs)"
    by (simp only: normalize_vecs_def nk)
  also have "\<dots> = Inr (rows_tensor [3] (\<lambda>x. normalize_row (A x)) xs)"
    by (simp add: binop_def rows_tensor_def bs e1 expand_col m r comp_def del: expand_data.simps cong: map_cong)
  finally show ?thesis .
qed

lemma length_concat_rows:
  "(\<And>x. x \<in> set xs \<Longrightarrow> length (A x) = k) \<Longrightarrow> length (concat (map A xs)) = length xs * k"
  by (induction xs) simp_all

lemma expand_as_vec3_rows:
  "expand_as (vec3 a b c) (rows_tensor [3] A xs) = Inr (rows_tensor [3] (\<lambda>_. [a, b, c]) xs)"
proof -
  have "expand_data [3] [3] [a, b, c] = [a, b, c]"
    by (rule expand_data_same) simp
  then show ?thesis
    by (simp add: expand_as_def vec3_def rows_tensor_def expandable_def map_replicate_const)
qed

lemma cross_rows:
  assumes "\<And>x. x \<in> set xs \<Longrightarrow> length (A x) = 3" "\<And>x. x \<in> set xs \<Longrightarrow> length (B x) = 3"
  shows "cross (rows_tensor [3] A xs) (rows_tensor [3] B xs) =
         Inr (rows_tensor [3] (\<lambda>x. cross3 (A x) (B x)) xs)"
proof -
  have eA: "expand_data [length xs, 3] [length xs, 3] (concat (map A xs)) = concat (map A xs)"
    by (rule expand_data_same) (simp add: length_concat_rows assms)
  have eB: "expand_data [length xs, 3] [length xs, 3] (concat (map B xs)) = concat (map B xs)"
    by (rule expand_data_same) (simp add: length_concat_rows assms)
  have bs: "broadcast_shapes [length xs, 3] [length xs, 3] = Some [length xs, 3]"
    by (simp add: broadcast_shapes_def)
  show ?thesis
    by (simp add: cross_def rows_tensor_def bs eA eB chunks_concat_map assms map2_map_map
          del: expand_data.simps)
qed

lemma stack_last_rows:
  assumes "\<And>x. x \<in> set xs \<Longrightarrow> length (A x) = length (B x)"
    "\<And>x. x \<in> set xs \<Longrightarrow> length (B x) = length (C x)"
  shows "stack_last (rows_tensor [3] A xs) (rows_tensor [3] B xs) (rows_tensor [3] C xs) =
         Inr (rows_tensor [3, 3] (\<lambda>x. stack_row (A x) (B x) (C x)) xs)"
proof -
  have "concat (map row3 (zip (concat (map A xs)) (zip (concat (map B xs)) (concat (map C xs))))) =
        concat (map (\<lambda>x. stack_row (A x) (B x) (C x)) xs)"
    using assms by (induction xs) (simp_all add: stack_row_def)
  then show ?thesis
    by (simp add: stack_last_def rows_tensor_def)
qed

lemma expand_data_lead:
  "length ss \<le> length ts \<Longrightarrow> expand_data ss (t # ts) d = concat (replicate t (expand_data ss ts d))"
  by simp

lemma copy_src_batch33:
  assumes "length d = n * 9"
  shows "copy_src [n, 3, 3] \<lparr>shape = [n, 3, 3], data = d\<rparr> = Inr d"
proof (cases "n = 1")
  case True
  have "expand_data [3, 3] [3, 3] d = d"
    by (rule expand_data_same) (simp add: assms True)
  then have "expand_data [3, 3] [1, 3, 3] d = d"
    by (simp del: expand_data.simps add: expand_data_lead)
  then show ?thesis
    using True by (simp add: copy_src_def expandable_def del: expand_data.simps)
next
  case False
  have "expand_data [n, 3, 3] [n, 3, 3] d = d"
    by (rule expand_data_same) (simp add: assms)
  then show ?thesis
    using False by (simp add: copy_src_def expandable_def del: expand_data.simps)
qed

lemma copy_src_batch3:
  assumes "length d = n * 3"
  shows "copy_src [n, 3] \<lparr>shape = [n, 3], data = d\<rparr> = Inr d"
proof (cases "n = 1")
  case True
  have "expand_data [3] [3] d = d"
    by (rule expand_data_same) (simp add: assms True)
  then have "expand_data [3] [1, 3] d = d"
    by (simp del: expand_data.simps add: expand_data_lead)
  then show ?thesis
    using True by (simp add: copy_src_def expandable_def del: expand_data.simps)
next
  case False
  have "expand_data [n, 3] [n, 3] d = d"
    by (rule expand_data_same) (simp add: assms)
  then show ?thesis
    using False by (simp add: copy_src_def expandable_def del: expand_data.simps)
qed

lemma copy_src_vec3: "copy_src [n, 3] (vec3 a b c) = Inr (concat (replicate n [a, b, c]))"
proof -
  have "expand_data [3] [3] [a, b, c] = [a, b, c]"
    by (rule expand_data_same) simp
  then have "expand_data [3] [n, 3] [a, b, c] = concat (replicate n [a, b, c])"
    by (simp del: expand_data.simps add: expand_data_lead)
  then show ?thesis
    by (simp add: copy_src_def vec3_def expandable_def del: expand_data.simps)
qed

lemma set_block_rows:
  assumes "\<And>x. x \<in> set xs \<Longrightarrow> length (S x) = 9"
  shows "set_block (eye4_repeat (length xs)) (rows_tensor [3, 3] S xs) =
         Inr (rows_tensor [4, 4] (\<lambda>x. put_block eye4 (S x)) xs)"
proof -
  have c: "copy_src [length xs, 3, 3] \<lparr>shape = [length xs, 3, 3], data = concat (map S xs)\<rparr> =
      Inr (concat (map S xs))"
    by (rule copy_src_batch33) (simp add: length_concat_rows assms)
  have e: "chunks 16 (length xs) (concat (map (\<lambda>_. eye4) xs)) = map (\<lambda>_. eye4) xs"
    by (rule chunks_concat_map) (simp add: eye4_def)
  show ?thesis
    by (simp add: set_block_def eye4_repeat_rows rows_tensor_def c Let_def e chunks_concat_map
          assms map2_map_map)
qed

lemma set_column_rows:
  assumes "\<And>x. x \<in> set xs \<Longrightarrow> length (S x) = 3"
  shows "set_column (eye4_repeat (length xs)) (rows_tensor [3] S xs) =
         Inr (rows_tensor [4, 4] (\<lambda>x. put_column eye4 (S x)) xs)"
proof -
  have c: "copy_src [length xs, 3] \<lparr>shape = [length xs, 3], data = concat (map S xs)\<rparr> =
      Inr (concat (map S xs))"
    by (rule copy_src_batch3) (simp add: length_concat_rows assms)
  have e: "chunks 16 (length xs) (concat (map (\<lambda>_. eye4) xs)) = map (\<lambda>_. eye4) xs"
    by (rule chunks_concat_map) (simp add: eye4_def)
  show ?thesis
    by (simp add: set_column_def eye4_repeat_rows rows_tensor_def c Let_def e chunks_concat_map
          assms map2_map_map)
qed

lemma set_column_vec3:
  "set_column (eye4_repeat (length xs)) (vec3 a b c) =
   Inr (rows_tensor [4, 4] (\<lambda>x. put_column eye4 [a, b, c]) xs)"
proof -
  have e: "chunks 16 (length xs) (concat (map (\<lambda>_. eye4) xs)) = map (\<lambda>_. eye4) xs"
    by (rule chunks_concat_map) (simp add: eye4_def)
  have r: "chunks 3 (length xs) (concat (map (\<lambda>_. [a, b, c]) xs)) = map (\<lambda>_. [a, b, c]) xs"
    by (rule chunks_concat_map) simp
  show ?thesis
    by (simp add: set_column_def eye4_repeat_rows rows_tensor_def copy_src_vec3 Let_def e r
          map_replicate_const [symmetric] map2_map_map)
qed

lemma length_mm4 [simp]: "length (mm4 a b) = 16"
  by (simp add: mm4_def)

lemma length_put_block [simp]: "length (put_block a b) = 16"
  by (simp add: put_block_def)

lemma length_put_column [simp]: "length (put_column a b) = 16"
  by (simp add: put_column_def)

lemma matmul_rows:
  assumes "\<And>x. x \<in> set xs \<Longrightarrow> length (A x) = 16" "\<And>x. x \<in> set xs \<Longrightarrow> length (B x) = 16"
  shows "matmul (rows_tensor [4, 4] A xs) (rows_tensor [4, 4] B xs) =
         Inr (rows_tensor [4, 4] (\<lambda>x. mm4 (A x) (B x)) xs)"
  by (simp add: matmul_def rows_tensor_def chunks_concat_map assms map2_map_map)

lemma length_normalize_row [simp]: "length (normalize_row v) = length v"
  by (simp add: normalize_row_def)

lemma length_cross3 [simp]: "length (cross3 a b) = 3"
  by (simp add: cross3_def)

lemma length_stack_row: "length a = 3 \<Longrightarrow> length b = 3 \<Longrightarrow> length c = 3 \<Longrightarrow> length (stack_row a b c) = 9"
  by (auto simp: stack_row_def length_Suc_conv numeral_3_eq_3)

lemma shape_rows_tensor [simp]: "shape (rows_tensor s A xs) = length xs # s"
  by (simp add: rows_tensor_def)

lemma create_rows_gen:
  assumes F: "\<And>x. x \<in> set xs \<Longrightarrow> length (F x) = 3"
    and sc: "set_column (eye4_repeat (length xs)) origin = Inr (rows_tensor [4, 4] (\<lambda>x. put_column eye4 (G x)) xs)"
  shows "create_cam2world_matrix (rows_tensor [3] F xs) origin (vec3 a b c) =
         Inr (rows_tensor [4, 4] (\<lambda>x. pose_matrix [a, b, c] (F x) (G x)) xs)"
proof -
  let ?f = "\<lambda>x. normalize_row (F x)"
  let ?r = "\<lambda>x. map fneg (normalize_row (cross3 [a, b, c] (?f x)))"
  let ?u = "\<lambda>x. normalize_row (cross3 (?f x) (?r x))"
  have 1: "normalize_vecs (rows_tensor [3] F xs) = Inr (rows_tensor [3] ?f xs)"
    by (rule normalize_vecs_rows) (rule F)
  have 2: "expand_as (vec3 a b c) (rows_tensor [3] ?f xs) = Inr (rows_tensor [3] (\<lambda>_. [a, b, c]) xs)"
    by (rule expand_as_vec3_rows)
  have 3: "cross (rows_tensor [3] (\<lambda>_. [a, b, c]) xs) (rows_tensor [3] ?f xs) =
      Inr (rows_tensor [3] (\<lambda>x. cross3 [a, b, c] (?f x)) xs)"
    by (rule cross_rows) (simp_all add: F)
  have 4: "normalize_vecs (rows_tensor [3] (\<lambda>x. cross3 [a, b, c] (?f x)) xs) =
      Inr (rows_tensor [3] (\<lambda>x. normalize_row (cross3 [a, b, c] (?f x))) xs)"
    by (rule normalize_vecs_rows) simp
  have 5: "unop fneg (rows_tensor [3] (\<lambda>x. normalize_row (cross3 [a, b, c] (?f x))) xs) =
      rows_tensor [3] ?r xs"
    by (rule unop_rows)
  have 6: "cross (rows_tensor [3] ?f xs) (rows_tensor [3] ?r xs) =
      Inr (rows_tensor [3] (\<lambda>x. cross3 (?f x) (?r x)) xs)"
    by (rule cross_rows) (simp_all add: F)
  have 7: "normalize_vecs (rows_tensor [3] (\<lambda>x. cross3 (?f x) (?r x)) xs) = Inr (rows_tensor [3] ?u xs)"
    by (rule normalize_vecs_rows) simp
  have 8: "stack_last (rows_tensor [3] ?r xs) (rows_tensor [3] ?u xs) (rows_tensor [3] ?f xs) =
      Inr (rows_tensor [3, 3] (\<lambda>x. stack_row (?r x) (?u x) (?f x)) xs)"
    by (rule stack_last_rows) (simp_all add: F)
  have 9: "set_block (eye4_repeat (length xs)) (rows_tensor [3, 3] (\<lambda>x. stack_row (?r x) (?u x) (?f x)) xs) =
      Inr (rows_tensor [4, 4] (\<lambda>x. put_block eye4 (stack_row (?r x) (?u x) (?f x))) xs)"
    by (rule set_block_rows) (simp add: length_stack_row F)
  have 10: "matmul (rows_tensor [4, 4] (\<lambda>x. put_column eye4 (G x)) xs)
        (rows_tensor [4, 4] (\<lambda>x. put_block eye4 (stack_row (?r x) (?u x) (?f x))) xs) =
      Inr (rows_tensor [4, 4] (\<lambda>x. mm4 (put_column eye4 (G x)) (put_block eye4 (stack_row (?r x) (?u x) (?f x)))) xs)"
    by (rule matmul_rows) simp_all
  show ?thesis
    unfolding create_cam2world_matrix_def
    by (simp only: 1 2 3 4 5 6 7 8 9 10 sc and_then_simps Let_def shape_rows_tensor list.case)
       (simp add: pose_matrix_def Let_def)
qed

subsection \<open>Vectors of real numbers\<close>

lemma vector_norm_Fin3:
  "vector_norm [Fin a, Fin b, Fin c] = Fin (sqrt (a * a + b * b + c * c))"
  by (simp add: vector_norm_def)

lemma normalize_row_Fin3:
  assumes "sqrt (a * a + b * b + c * c) = n" "n \<noteq> 0"
  shows "normalize_row [Fin a, Fin b, Fin c] = [Fin (a / n), Fin (b / n), Fin (c / n)]"
  using assms by (simp add: normalize_row_def vector_norm_Fin3)

lemma cross3_Fin:
  "cross3 [Fin a1, Fin a2, Fin a3] [Fin b1, Fin b2, Fin b3] =
   [Fin (a2 * b3 - a3 * b2), Fin (a3 * b1 - a1 * b3), Fin (a1 * b2 - a2 * b1)]"
  by (simp add: cross3_def fsub_def)

lemma unit_normalized:
  fixes a b c :: real
  assumes "sqrt (a * a + b * b + c * c) = n" "n \<noteq> 0"
  shows "(a / n) * (a / n) + (b / n) * (b / n) + (c / n) * (c / n) = 1"
proof -
  define s where "s = a * a + b * b + c * c"
  have "0 \<le> s" by (simp add: s_def)
  then have nn: "n * n = s"
    using assms(1) by (simp add: s_def [symmetric] flip: assms(1))
  then have "s \<noteq> 0" using assms(2) by auto
  have "(a / n) * (a / n) + (b / n) * (b / n) + (c / n) * (c / n) = s / (n * n)"
    by (simp add: add_divide_distrib s_def)
  also have "\<dots> = 1" using nn \<open>s \<noteq> 0\<close> by simp
  finally show ?thesis .
qed

lemma cross_orthogonal:
  fixes a1 a2 a3 b1 b2 b3 :: real
  shows "(a2 * b3 - a3 * b2) * a1 + (a3 * b1 - a1 * b3) * a2 + (a1 * b2 - a2 * b1) * a3 = 0"
    and "(a2 * b3 - a3 * b2) * b1 + (a3 * b1 - a1 * b3) * b2 + (a1 * b2 - a2 * b1) * b3 = 0"
  by (simp_all add: algebra_simps)

lemma lagrange_identity:
  fixes a1 a2 a3 b1 b2 b3 :: real
  shows "(a2 * b3 - a3 * b2) * (a2 * b3 - a3 * b2) + (a3 * b1 - a1 * b3) * (a3 * b1 - a1 * b3)
         + (a1 * b2 - a2 * b1) * (a1 * b2 - a2 * b1)
       = (a1 * a1 + a2 * a2 + a3 * a3) * (b1 * b1 + b2 * b2 + b3 * b3)
         - (a1 * b1 + a2 * b2 + a3 * b3) * (a1 * b1 + a2 * b2 + a3 * b3)"
  by (simp add: algebra_simps)

lemma det_identity:
  fixes a1 a2 a3 r1 r2 r3 :: real
  defines "c1 \<equiv> a2 * r3 - a3 * r2" and "c2 \<equiv> a3 * r1 - a1 * r3" and "c3 \<equiv> a1 * r2 - a2 * r1"
  shows "r1 * (c2 * a3 - a2 * c3) - c1 * (r2 * a3 - a2 * r3) + a1 * (r2 * c3 - c2 * r3)
       = c1 * c1 + c2 * c2 + c3 * c3"
  unfolding c1_def c2_def c3_def by (simp add: algebra_simps)

subsection \<open>The matrix of one pose\<close>

lemma sum_squares3_zero:
  fixes a b c :: real
  shows "a * a + b * b + c * c = 0 \<longleftrightarrow> a = 0 \<and> b = 0 \<and> c = 0"
proof
  assume h: "a * a + b * b + c * c = 0"
  have "0 \<le> a * a" "0 \<le> b * b" "0 \<le> c * c" by simp_all
  with h have "a * a = 0" "b * b = 0" "c * c = 0" by linarith+
  then show "a = 0 \<and> b = 0 \<and> c = 0" by simp
qed simp

lemma pose_matrix_explicit:
  assumes nf: "sqrt (fx * fx + fy * fy + fz * fz) = nf" "nf \<noteq> 0"
    and f: "f1 = fx / nf" "f2 = fy / nf" "f3 = fz / nf"
    and nc: "sqrt ((uy * f3 - uz * f2) * (uy * f3 - uz * f2) + (uz * f1 - ux * f3) * (uz * f1 - ux * f3)
               + (ux * f2 - uy * f1) * (ux * f2 - uy * f1)) = nc" "nc \<noteq> 0"
    and r: "r1 = - ((uy * f3 - uz * f2) / nc)" "r2 = - ((uz * f1 - ux * f3) / nc)"
           "r3 = - ((ux * f2 - uy * f1) / nc)"
    and nd: "sqrt ((f2 * r3 - f3 * r2) * (f2 * r3 - f3 * r2) + (f3 * r1 - f1 * r3) * (f3 * r1 - f1 * r3)
               + (f1 * r2 - f2 * r1) * (f1 * r2 - f2 * r1)) = 1"
  shows "pose_matrix [Fin ux, Fin uy, Fin uz] [Fin fx, Fin fy, Fin fz] [Fin ox, Fin oy, Fin oz] =
     [Fin r1, Fin (f2 * r3 - f3 * r2), Fin f1, Fin ox,
      Fin r2, Fin (f3 * r1 - f1 * r3), Fin f2, Fin oy,
      Fin r3, Fin (f1 * r2 - f2 * r1), Fin f3, Fin oz,
      Fin 0, Fin 0, Fin 0, Fin 1]"
proof -
  have 1: "normalize_row [Fin fx, Fin fy, Fin fz] = [Fin f1, Fin f2, Fin f3]"
    unfolding f by (rule normalize_row_Fin3) (rule nf)+
  have 2: "map fneg (normalize_row (cross3 [Fin ux, Fin uy, Fin uz] [Fin f1, Fin f2, Fin f3])) =
      [Fin r1, Fin r2, Fin r3]"
    unfolding cross3_Fin r by (simp add: normalize_row_Fin3 [OF nc])
  have 3: "normalize_row (cross3 [Fin f1, Fin f2, Fin f3] [Fin r1, Fin r2, Fin r3]) =
      [Fin (f2 * r3 - f3 * r2), Fin (f3 * r1 - f1 * r3), Fin (f1 * r2 - f2 * r1)]"
    unfolding cross3_Fin by (simp add: normalize_row_Fin3 [OF nd])
  show ?thesis
    unfolding pose_matrix_def Let_def 1 2 3
    by (simp add: stack_row_def put_block_def put_column_def eye4_def mm4_def dot4_def)
qed

lemma pose_matrix_Fin:
  assumes nz: "vector_norm [Fin fx, Fin fy, Fin fz] \<noteq> Fin 0"
    and np: "cross3 [Fin ux, Fin uy, Fin uz] [Fin fx, Fin fy, Fin fz] \<noteq> [Fin 0, Fin 0, Fin 0]"
  shows "\<exists>r1 r2 r3 u1 u2 u3 f1 f2 f3.
     pose_matrix [Fin ux, Fin uy, Fin uz] [Fin fx, Fin fy, Fin fz] [Fin ox, Fin oy, Fin oz] =
       [Fin r1, Fin u1, Fin f1, Fin ox,
        Fin r2, Fin u2, Fin f2, Fin oy,
        Fin r3, Fin u3, Fin f3, Fin oz,
        Fin 0, Fin 0, Fin 0, Fin 1]
     \<and> r1 * r1 + r2 * r2 + r3 * r3 = 1
     \<and> u1 * u1 + u2 * u2 + u3 * u3 = 1
     \<and> f1 * f1 + f2 * f2 + f3 * f3 = 1
     \<and> r1 * u1 + r2 * u2 + r3 * u3 = 0
     \<and> r1 * f1 + r2 * f2 + r3 * f3 = 0
     \<and> u1 * f1 + u2 * f2 + u3 * f3 = 0
     \<and> r1 * (u2 * f3 - f2 * u3) - u1 * (r2 * f3 - f2 * r3) + f1 * (r2 * u3 - u2 * r3) = 1"
proof -
  define nf where "nf = sqrt (fx * fx + fy * fy + fz * fz)"
  have nf: "sqrt (fx * fx + fy * fy + fz * fz) = nf" "nf \<noteq> 0"
    using nz by (simp_all add: nf_def vector_norm_Fin3)
  define f1 f2 f3 where f: "f1 = fx / nf" "f2 = fy / nf" "f3 = fz / nf"
  have ff: "f1 * f1 + f2 * f2 + f3 * f3 = 1"
    unfolding f by (rule unit_normalized) (rule nf)+
  define c1 c2 c3 where c: "c1 = uy * f3 - uz * f2" "c2 = uz * f1 - ux * f3" "c3 = ux * f2 - uy * f1"
  have cs: "c1 = (uy * fz - uz * fy) / nf" "c2 = (uz * fx - ux * fz) / nf" "c3 = (ux * fy - uy * fx) / nf"
    by (simp_all add: c f diff_divide_distrib)
  have "\<not> (uy * fz - uz * fy = 0 \<and> uz * fx - ux * fz = 0 \<and> ux * fy - uy * fx = 0)"
    using np by (simp add: cross3_Fin)
  then have cnz: "\<not> (c1 = 0 \<and> c2 = 0 \<and> c3 = 0)"
    using nf(2) by (simp add: cs)
  define nc where "nc = sqrt (c1 * c1 + c2 * c2 + c3 * c3)"
  have nc: "sqrt (c1 * c1 + c2 * c2 + c3 * c3) = nc" "nc \<noteq> 0"
    using cnz by (simp_all add: nc_def sum_squares3_zero)
  define r1 r2 r3 where r: "r1 = - (c1 / nc)" "r2 = - (c2 / nc)" "r3 = - (c3 / nc)"
  have "(c1 / nc) * (c1 / nc) + (c2 / nc) * (c2 / nc) + (c3 / nc) * (c3 / nc) = 1"
    by (rule unit_normalized) (rule nc)+
  then have rr: "r1 * r1 + r2 * r2 + r3 * r3 = 1"
    by (simp add: r)
  have "c1 * f1 + c2 * f2 + c3 * f3 = 0"
    unfolding c by (simp add: algebra_simps)
  then have "(c1 * f1 + c2 * f2 + c3 * f3) / nc = 0" by simp
  then have rf: "r1 * f1 + r2 * f2 + r3 * f3 = 0"
    by (simp add: r add_divide_distrib)
  then have fr: "f1 * r1 + f2 * r2 + f3 * r3 = 0"
    by (simp add: mult.commute)
  define u1 u2 u3 where u: "u1 = f2 * r3 - f3 * r2" "u2 = f3 * r1 - f1 * r3" "u3 = f1 * r2 - f2 * r1"
  have uu: "u1 * u1 + u2 * u2 + u3 * u3 = 1"
    unfolding u lagrange_identity ff rr fr by simp
  have nd: "sqrt (u1 * u1 + u2 * u2 + u3 * u3) = 1"
    by (simp add: uu)
  have ru: "r1 * u1 + r2 * u2 + r3 * u3 = 0"
    unfolding u by (simp add: algebra_simps)
  have uf: "u1 * f1 + u2 * f2 + u3 * f3 = 0"
    unfolding u by (simp add: algebra_simps)
  have "r1 * (u2 * f3 - f2 * u3) - u1 * (r2 * f3 - f2 * r3) + f1 * (r2 * u3 - u2 * r3)
      = u1 * u1 + u2 * u2 + u3 * u3"
    unfolding u by (rule det_identity)
  then have det: "r1 * (u2 * f3 - f2 * u3) - u1 * (r2 * f3 - f2 * r3) + f1 * (r2 * u3 - u2 * r3) = 1"
    by (simp add: uu)
  have "pose_matrix [Fin ux, Fin uy, Fin uz] [Fin fx, Fin fy, Fin fz] [Fin ox, Fin oy, Fin oz] =
     [Fin r1, Fin (f2 * r3 - f3 * r2), Fin f1, Fin ox,
      Fin r2, Fin (f3 * r1 - f1 * r3), Fin f2, Fin oy,
      Fin r3, Fin (f1 * r2 - f2 * r1), Fin f3, Fin oz,
      Fin 0, Fin 0, Fin 0, Fin 1]"
    by (rule pose_matrix_explicit [OF nf f nc [unfolded c] r [unfolded c] nd [unfolded u]])
  then show ?thesis
    using rr uu ff ru rf uf det unfolding u by blast
qed

subsection \<open>The matrices of a batch\<close>

lemma length_pose_matrix [simp]: "length (pose_matrix u f orig) = 16"
  by (simp add: pose_matrix_def Let_def)

lemma create_batch:
  assumes "length os = length fs"
  shows "create_cam2world_matrix (batch3 fs) (batch3 os) (vec3 a b c) =
         Inr (rows_tensor [4, 4] (\<lambda>x. pose_matrix [a, b, c] (row3 (fst x)) (row3 (snd x))) (zip fs os))"
proof -
  let ?xs = "zip fs os"
  have f: "batch3 fs = rows_tensor [3] (\<lambda>x. row3 (fst x)) ?xs"
    using assms by (simp add: batch3_def rows_tensor_def map_fst_zip flip: map_map [unfolded comp_def])
  have o: "batch3 os = rows_tensor [3] (\<lambda>x. row3 (snd x)) ?xs"
    using assms by (simp add: batch3_def rows_tensor_def map_snd_zip flip: map_map [unfolded comp_def])
  have sc: "set_column (eye4_repeat (length ?xs)) (batch3 os) =
      Inr (rows_tensor [4, 4] (\<lambda>x. put_column eye4 (row3 (snd x))) ?xs)"
    unfolding o by (rule set_column_rows) simp
  show ?thesis
    unfolding f by (rule create_rows_gen [OF _ sc]) simp
qed

lemma create_single_origin:
  "create_cam2world_matrix (batch3 fs) (vec3 p q r) (vec3 a b c) =
   Inr (rows_tensor [4, 4] (\<lambda>x. pose_matrix [a, b, c] (row3 x) [p, q, r]) fs)"
  unfolding batch3_rows
  by (rule create_rows_gen [OF _ set_column_vec3]) simp

lemma entry_rows:
  assumes "\<And>x. x \<in> set xs \<Longrightarrow> length (P x) = 16" "b < length xs" "4 * i + j < 16"
  shows "entry (rows_tensor [4, 4] P xs) b i j = P (xs ! b) ! (4 * i + j)"
  using nth_concat_map [of xs P 16 b "4 * i + j"] assms
  by (simp add: entry_def rows_tensor_def)

lemma create_batch_row:
  assumes len: "length os = length fs" and b: "b < length fs"
    and f: "fs ! b = (Fin fx, Fin fy, Fin fz)" and o: "os ! b = (Fin ox, Fin oy, Fin oz)"
    and nz: "vector_norm [Fin fx, Fin fy, Fin fz] \<noteq> Fin 0"
    and np: "cross3 [Fin ux, Fin uy, Fin uz] [Fin fx, Fin fy, Fin fz] \<noteq> [Fin 0, Fin 0, Fin 0]"
  shows "\<exists>m r1 r2 r3 u1 u2 u3 f1 f2 f3.
     create_cam2world_matrix (batch3 fs) (batch3 os) (vec3 (Fin ux) (Fin uy) (Fin uz)) = Inr m
     \<and> column m b 0 = [Fin r1, Fin r2, Fin r3]
     \<and> column m b 1 = [Fin u1, Fin u2, Fin u3]
     \<and> column m b 2 = [Fin f1, Fin f2, Fin f3]
     \<and> r1 * r1 + r2 * r2 + r3 * r3 = 1
     \<and> u1 * u1 + u2 * u2 + u3 * u3 = 1
     \<and> f1 * f1 + f2 * f2 + f3 * f3 = 1
     \<and> r1 * u1 + r2 * u2 + r3 * u3 = 0
     \<and> r1 * f1 + r2 * f2 + r3 * f3 = 0
     \<and> u1 * f1 + u2 * f2 + u3 * f3 = 0
     \<and> r1 * (u2 * f3 - f2 * u3) - u1 * (r2 * f3 - f2 * r3) + f1 * (r2 * u3 - u2 * r3) = 1"
proof -
  let ?P = "\<lambda>x. pose_matrix [Fin ux, Fin uy, Fin uz] (row3 (fst x)) (row3 (snd x))"
  let ?m = "rows_tensor [4, 4] ?P (zip fs os)"
  have m: "create_cam2world_matrix (batch3 fs) (batch3 os) (vec3 (Fin ux) (Fin uy) (Fin uz)) = Inr ?m"
    by (rule create_batch) (rule len)
  have e: "entry ?m b i j = pose_matrix [Fin ux, Fin uy, Fin uz] [Fin fx, Fin fy, Fin fz] [Fin ox, Fin oy, Fin oz] ! (4 * i + j)"
    if "4 * i + j < 16" for i j
    using entry_rows [of "zip fs os" ?P b i j] that len b f o by simp
  obtain r1 r2 r3 u1 u2 u3 f1 f2 f3 where
    p: "pose_matrix [Fin ux, Fin uy, Fin uz] [Fin fx, Fin fy, Fin fz] [Fin ox, Fin oy, Fin oz] =
       [Fin r1, Fin u1, Fin f1, Fin ox,
        Fin r2, Fin u2, Fin f2, Fin oy,
        Fin r3, Fin u3, Fin f3, Fin oz,
        Fin 0, Fin 0, Fin 0, Fin 1]"
    and q: "r1 * r1 + r2 * r2 + r3 * r3 = 1"
      "u1 * u1 + u2 * u2 + u3 * u3 = 1"
      "f1 * f1 + f2 * f2 + f3 * f3 = 1"
      "r1 * u1 + r2 * u2 + r3 * u3 = 0"
      "r1 * f1 + r2 * f2 + r3 * f3 = 0"
      "u1 * f1 + u2 * f2 + u3 * f3 = 0"
      "r1 * (u2 * f3 - f2 * u3) - u1 * (r2 * f3 - f2 * r3) + f1 * (r2 * u3 - u2 * r3) = 1"
    using pose_matrix_Fin [OF nz np, of ox oy oz] by blast
  have "column ?m b 0 = [Fin r1, Fin r2, Fin r3]"
    "column ?m b 1 = [Fin u1, Fin u2, Fin u3]"
    "column ?m b 2 = [Fin f1, Fin f2, Fin f3]"
    by (simp_all add: column_def e p)
  with m q show ?thesis by blast
qed

subsection \<open>The origin for scalar arguments\<close>

lemma binop_scalar [simp]: "binop f (scalar x) (scalar y) = Inr (scalar (f x y))"
  by (simp add: binop_def scalar_def broadcast_shapes_def)

lemma unop_scalar [simp]: "unop f (scalar x) = scalar (f x)"
  by (simp add: unop_def scalar_def)

lemma set_slice_scalar:
  "set_slice \<lparr>shape = [3], data = [a, b, c]\<rparr> 0 (Suc 0) (scalar x) = Inr \<lparr>shape = [3], data = [x, b, c]\<rparr>"
  "set_slice \<lparr>shape = [3], data = [a, b, c]\<rparr> (Suc 0) 2 (scalar x) = Inr \<lparr>shape = [3], data = [a, x, c]\<rparr>"
  "set_slice \<lparr>shape = [3], data = [a, b, c]\<rparr> 2 3 (scalar x) = Inr \<lparr>shape = [3], data = [a, b, x]\<rparr>"
  by (simp_all add: set_slice_def copy_src_def scalar_def expandable_def)

lemma zeros3: "zeros [3] = \<lparr>shape = [3], data = [Fin 0, Fin 0, Fin 0]\<rparr>"
  by (simp add: zeros_def numeral_3_eq_3)

lemma get_origin_scalar:
  "get_origin (scalar h) (scalar v) (scalar r) =
     (let phi = farccos (fsub (Fin 1) (fmul (Fin 2) (fdiv (fclamp (1 / 100000) (pi - 1 / 100000) v) (Fin pi))))
      in Inr (vec3 (fmul (fmul r (fsin phi)) (fcos (fsub (Fin pi) h)))
                   (fmul r (fcos phi))
                   (fmul (fmul r (fsin phi)) (fsin (fsub (Fin pi) h)))))"
  by (simp add: get_origin_def zeros3 set_slice_scalar vec3_def Let_def)

lemma clamped_range:
  fixes v :: real
  defines "c \<equiv> min (max v (1 / 100000)) (pi - 1 / 100000)"
  shows "- 1 \<le> 1 - 2 * (c / pi)" and "1 - 2 * (c / pi) \<le> 1"
proof -
  have p: "2 \<le> pi" by (rule pi_ge_two)
  then have "0 \<le> c" "c \<le> pi" by (simp_all add: c_def min_def max_def)
  then have "0 \<le> c / pi" "c / pi \<le> 1" using p by (simp_all add: field_simps)
  then show "- 1 \<le> 1 - 2 * (c / pi)" and "1 - 2 * (c / pi) \<le> 1" by linarith+
qed

lemma get_origin_Fin:
  "get_origin (scalar (Fin t)) (scalar (Fin v)) (scalar (Fin r)) =
     (let phi = arccos (1 - 2 * (min (max v (1 / 100000)) (pi - 1 / 100000) / pi))
      in Inr (vec3 (Fin (r * sin phi * cos (pi - t)))
                   (Fin (r * cos phi))
                   (Fin (r * sin phi * sin (pi - t)))))"
  using clamped_range [of v] by (simp add: get_origin_scalar fsub_def Let_def)




lemma and_then_Inr: "and_then r f = Inr y \<longleftrightarrow> (\<exists>x. r = Inr x \<and> f x = Inr y)"
  by (cases r) simp_all

lemma and_then_Inl: "and_then r f = Inl e \<longleftrightarrow> r = Inl e \<or> (\<exists>x. r = Inr x \<and> f x = Inl e)"
  by (cases r) simp_all

lemma and_then_InrE:
  assumes "and_then r f = Inr y"
  obtains x where "r = Inr x" and "f x = Inr y"
  using assms by (cases r) simp_all

lemma matmul_shape: "matmul a b = Inr m \<Longrightarrow> drop 1 (shape m) = [4, 4]"
  by (auto simp: matmul_def drop_Suc split: if_splits)

lemma binop_not_assert: "binop f a b \<noteq> Inl AssertionError"
  by (simp add: binop_def split: option.splits)

lemma copy_src_not_assert: "copy_src s a \<noteq> Inl AssertionError"
  by (simp add: copy_src_def Let_def)

lemma create_not_assert_aux:
  "normalize_vecs a \<noteq> Inl AssertionError"
  "expand_as a b \<noteq> Inl AssertionError"
  "cross a b \<noteq> Inl AssertionError"
  "stack_last a b c \<noteq> Inl AssertionError"
  "set_block a b \<noteq> Inl AssertionError"
  "set_column a b \<noteq> Inl AssertionError"
  "matmul a b \<noteq> Inl AssertionError"
  by (simp_all add: normalize_vecs_def binop_not_assert expand_as_def cross_def stack_last_def
      set_block_def set_column_def matmul_def Let_def and_then_Inl copy_src_not_assert
      split: option.splits)

lemma binop_vec3:
  "binop f (vec3 a b c) (vec3 x y z) = Inr (vec3 (f a x) (f b y) (f c z))"
proof -
  have "expand_data [3] [3] [a, b, c] = [a, b, c]" "expand_data [3] [3] [x, y, z] = [x, y, z]"
    by (rule expand_data_same, simp)+
  then show ?thesis
    by (simp add: binop_def vec3_def broadcast_shapes_def del: expand_data.simps)
qed

lemma normalize_vecs_vec3:
  "normalize_vecs (vec3 a b c) = Inr \<lparr>shape = [3], data = normalize_row [a, b, c]\<rparr>"
proof -
  have n: "norm_keepdim (vec3 a b c) = \<lparr>shape = [1], data = [vector_norm [a, b, c]]\<rparr>"
    by (simp add: norm_keepdim_def vec3_def chunks_Suc)
  have e: "expand_data [3] [3] [a, b, c] = [a, b, c]"
    by (rule expand_data_same) simp
  show ?thesis
    unfolding normalize_vecs_def n
    by (simp add: binop_def vec3_def broadcast_shapes_def e expand_13 [unfolded One_nat_def]
          normalize_row_def del: expand_data.simps)
qed

lemma vec3_row: "length d = 3 \<Longrightarrow> \<lparr>shape = [3], data = d\<rparr> = vec3 (d ! 0) (d ! 1) (d ! 2)"
  by (auto simp: vec3_def length_Suc_conv numeral_3_eq_3)

lemma expand_as_vec3: "expand_as (vec3 a b c) \<lparr>shape = [3], data = d\<rparr> = Inr (vec3 a b c)"
proof -
  have "expand_data [3] [3] [a, b, c] = [a, b, c]"
    by (rule expand_data_same) simp
  then show ?thesis
    by (simp add: expand_as_def vec3_def expandable_def del: expand_data.simps)
qed

lemma cross_vec3:
  assumes "length p = 3" "length q = 3"
  shows "cross \<lparr>shape = [3], data = p\<rparr> \<lparr>shape = [3], data = q\<rparr> = Inr \<lparr>shape = [3], data = cross3 p q\<rparr>"
proof -
  have "expand_data [3] [3] p = p" "expand_data [3] [3] q = q"
    by (rule expand_data_same, simp add: assms)+
  then show ?thesis
    using assms by (simp add: cross_def broadcast_shapes_def chunks_Suc del: expand_data.simps)
qed

lemma stack_last_vec3:
  "stack_last \<lparr>shape = [3], data = p\<rparr> \<lparr>shape = [3], data = q\<rparr> \<lparr>shape = [3], data = r\<rparr> =
   Inr \<lparr>shape = [3, 3], data = stack_row p q r\<rparr>"
  by (simp add: stack_last_def stack_row_def)

lemma copy_src_block:
  assumes "length d = 9"
  shows "copy_src [n, 3, 3] \<lparr>shape = [3, 3], data = d\<rparr> = Inr (concat (replicate n d))"
proof -
  have "expand_data [3, 3] [3, 3] d = d"
    by (rule expand_data_same) (simp add: assms)
  then have "expand_data [3, 3] [n, 3, 3] d = concat (replicate n d)"
    by (simp del: expand_data.simps add: expand_data_lead)
  then show ?thesis
    by (simp add: copy_src_def expandable_def del: expand_data.simps)
qed

lemma set_block_single:
  assumes "length d = 9"
  shows "set_block (eye4_repeat (length xs)) \<lparr>shape = [3, 3], data = d\<rparr> =
         Inr (rows_tensor [4, 4] (\<lambda>_. put_block eye4 d) xs)"
proof -
  have e: "chunks 16 (length xs) (concat (map (\<lambda>_. eye4) xs)) = map (\<lambda>_. eye4) xs"
    by (rule chunks_concat_map) (simp add: eye4_def)
  have r: "chunks 9 (length xs) (concat (map (\<lambda>_. d) xs)) = map (\<lambda>_. d) xs"
    by (rule chunks_concat_map) (simp add: assms)
  show ?thesis
    by (simp add: set_block_def eye4_repeat_rows rows_tensor_def copy_src_block assms Let_def e r
          map_replicate_const [symmetric] map2_map_map)
qed

lemma create_unbatched:
  "create_cam2world_matrix (vec3 fx fy fz) (vec3 ox oy oz) (vec3 ux uy uz) =
   Inr (rows_tensor [4, 4] (\<lambda>_. pose_matrix [ux, uy, uz] [fx, fy, fz] [ox, oy, oz]) [0, 1, 2 :: nat])"
proof -
  let ?f = "normalize_row [fx, fy, fz]"
  let ?r = "map fneg (normalize_row (cross3 [ux, uy, uz] ?f))"
  let ?u = "normalize_row (cross3 ?f ?r)"
  let ?xs = "[0, 1, 2 :: nat]"
  have n3: "eye4_repeat 3 = eye4_repeat (length ?xs)" by (simp add: numeral_3_eq_3)
  have 1: "normalize_vecs (vec3 fx fy fz) = Inr \<lparr>shape = [3], data = ?f\<rparr>"
    by (rule normalize_vecs_vec3)
  have 2: "expand_as (vec3 ux uy uz) \<lparr>shape = [3], data = ?f\<rparr> = Inr \<lparr>shape = [3], data = [ux, uy, uz]\<rparr>"
    by (simp add: expand_as_vec3) (simp add: vec3_def)
  have 3: "cross \<lparr>shape = [3], data = [ux, uy, uz]\<rparr> \<lparr>shape = [3], data = ?f\<rparr> =
      Inr \<lparr>shape = [3], data = cross3 [ux, uy, uz] ?f\<rparr>"
    by (rule cross_vec3) simp_all
  have 4: "normalize_vecs \<lparr>shape = [3], data = cross3 [ux, uy, uz] ?f\<rparr> =
      Inr \<lparr>shape = [3], data = normalize_row (cross3 [ux, uy, uz] ?f)\<rparr>"
    by (simp add: cross3_def normalize_vecs_vec3 [unfolded vec3_def])
  have 5: "unop fneg \<lparr>shape = [3], data = normalize_row (cross3 [ux, uy, uz] ?f)\<rparr> = \<lparr>shape = [3], data = ?r\<rparr>"
    by (simp add: unop_def)
  have 6: "cross \<lparr>shape = [3], data = ?f\<rparr> \<lparr>shape = [3], data = ?r\<rparr> =
      Inr \<lparr>shape = [3], data = cross3 ?f ?r\<rparr>"
    by (rule cross_vec3) simp_all
  have 7: "normalize_vecs \<lparr>shape = [3], data = cross3 ?f ?r\<rparr> = Inr \<lparr>shape = [3], data = ?u\<rparr>"
    by (simp add: cross3_def [of ?f ?r] normalize_vecs_vec3 [unfolded vec3_def])
  have 8: "stack_last \<lparr>shape = [3], data = ?r\<rparr> \<lparr>shape = [3], data = ?u\<rparr> \<lparr>shape = [3], data = ?f\<rparr> =
      Inr \<lparr>shape = [3, 3], data = stack_row ?r ?u ?f\<rparr>"
    by (rule stack_last_vec3)
  have 9: "set_block (eye4_repeat (length ?xs)) \<lparr>shape = [3, 3], data = stack_row ?r ?u ?f\<rparr> =
      Inr (rows_tensor [4, 4] (\<lambda>_. put_block eye4 (stack_row ?r ?u ?f)) ?xs)"
    by (rule set_block_single) (simp add: length_stack_row)
  have 10: "set_column (eye4_repeat (length ?xs)) (vec3 ox oy oz) =
      Inr (rows_tensor [4, 4] (\<lambda>_. put_column eye4 [ox, oy, oz]) ?xs)"
    by (rule set_column_vec3)
  have 11: "matmul (rows_tensor [4, 4] (\<lambda>_. put_column eye4 [ox, oy, oz]) ?xs)
        (rows_tensor [4, 4] (\<lambda>_. put_block eye4 (stack_row ?r ?u ?f)) ?xs) =
      Inr (rows_tensor [4, 4] (\<lambda>_. mm4 (put_column eye4 [ox, oy, oz]) (put_block eye4 (stack_row ?r ?u ?f))) ?xs)"
    by (rule matmul_rows) simp_all
  show ?thesis
    unfolding create_cam2world_matrix_def
    by (simp only: 1 2 3 4 5 6 7 8 and_then_simps Let_def tensor.simps list.case n3 9 10 11
          shape_rows_tensor)
       (simp add: pose_matrix_def Let_def)
qed

lemma get_origin_scalar_vec3:
  "\<exists>x y z. get_origin (scalar h) (scalar v) (scalar r) = Inr (vec3 x y z)"
  unfolding get_origin_scalar Let_def by blast

lemma normalize_vecs_vec3_ex: "\<exists>x y z. normalize_vecs (vec3 a b c) = Inr (vec3 x y z)"
  unfolding normalize_vecs_vec3 by (subst vec3_row) auto

lemma sample_scalar:
  "\<exists>x y z f1 f2 f3.
     get_origin (scalar h) (scalar v) (scalar r) = Inr (vec3 x y z) \<and>
     get_forward_vector (vec3 lx ly lz) (scalar h) (scalar v) (scalar r) (Some (vec3 x y z)) =
       Inr (vec3 f1 f2 f3) \<and>
     sample (scalar h) (scalar v) (vec3 lx ly lz) (scalar r) (vec3 ux uy uz) =
       Inr (rows_tensor [4, 4] (\<lambda>_. pose_matrix [ux, uy, uz] [f1, f2, f3] [x, y, z]) [0, 1, 2 :: nat])"
proof -
  obtain x y z where o: "get_origin (scalar h) (scalar v) (scalar r) = Inr (vec3 x y z)"
    using get_origin_scalar_vec3 by blast
  obtain f1 f2 f3 where n: "normalize_vecs (vec3 (fsub lx x) (fsub ly y) (fsub lz z)) = Inr (vec3 f1 f2 f3)"
    using normalize_vecs_vec3_ex by blast
  have f: "get_forward_vector (vec3 lx ly lz) (scalar h) (scalar v) (scalar r) (Some (vec3 x y z)) =
      Inr (vec3 f1 f2 f3)"
    by (simp add: get_forward_vector_def binop_vec3 n)
  have "sample (scalar h) (scalar v) (vec3 lx ly lz) (scalar r) (vec3 ux uy uz) =
      Inr (rows_tensor [4, 4] (\<lambda>_. pose_matrix [ux, uy, uz] [f1, f2, f3] [x, y, z]) [0, 1, 2 :: nat])"
    by (simp add: sample_def o f create_unbatched)
  with o f show ?thesis by blast
qed

lemma fadd_zero_left [simp]: "fadd (Fin 0) x = x"
  by (cases x) simp_all

lemma fmul_one_right [simp]: "fmul x (Fin 1) = x"
  by (cases x) simp_all

lemma fmul_one_left [simp]: "fmul (Fin 1) x = x"
  by (cases x) simp_all

lemma is_fin_fadd: "is_fin (fadd x y) \<Longrightarrow> is_fin x \<and> is_fin y"
  by (cases x; cases y) simp_all

lemma fmul_zero_fin: "is_fin x \<Longrightarrow> fmul (Fin 0) x = Fin 0"
  by (cases x) simp_all

lemma eye4_chunks: "chunks 16 n (concat (replicate n eye4)) = replicate n eye4"
  by (rule chunks_concat_replicate) (simp add: eye4_def)

lemma map2_replicate_chunks:
  "map2 f (replicate n e) (chunks k n d) = map (\<lambda>i. f e (take k (drop (i * k) d))) [0..<n]"
  by (simp add: chunks_def zip_replicate1 del: upt_Suc)

lemma set_column_general:
  assumes "set_column (eye4_repeat n) origin = Inr t"
  shows "\<exists>d. copy_src [n, 3] origin = Inr d \<and>
     t = rows_tensor [4, 4] (\<lambda>i. put_column eye4 (take 3 (drop (i * 3) d))) [0..<n]"
  using assms
  by (auto simp: set_column_def eye4_repeat_def Let_def eye4_chunks map2_replicate_chunks
        rows_tensor_def elim!: and_then_InrE)

lemma set_block_general:
  assumes "set_block (eye4_repeat n) src = Inr t"
  shows "\<exists>d. t = rows_tensor [4, 4] (\<lambda>i. put_block eye4 (take 9 (drop (i * 9) d))) [0..<n]"
  using assms
  by (auto simp: set_block_def eye4_repeat_def Let_def eye4_chunks map2_replicate_chunks
        rows_tensor_def elim!: and_then_InrE)

lemma create_general:
  assumes "create_cam2world_matrix forward_vector origin up_vector = Inr m"
  shows "\<exists>n d s. copy_src [n, 3] origin = Inr d \<and>
     m = rows_tensor [4, 4]
           (\<lambda>i. mm4 (put_column eye4 (take 3 (drop (i * 3) d))) (put_block eye4 (take 9 (drop (i * 9) s))))
           [0..<n]"
proof -
  from assms obtain n src t r where
    t: "set_column (eye4_repeat n) origin = Inr t" and r: "set_block (eye4_repeat n) src = Inr r"
    and m: "matmul t r = Inr m"
    unfolding create_cam2world_matrix_def Let_def
    by (auto elim!: and_then_InrE split: list.splits if_splits)
  from set_column_general [OF t] obtain d where d: "copy_src [n, 3] origin = Inr d"
    and t': "t = rows_tensor [4, 4] (\<lambda>i. put_column eye4 (take 3 (drop (i * 3) d))) [0..<n]"
    by blast
  from set_block_general [OF r] obtain s where
    r': "r = rows_tensor [4, 4] (\<lambda>i. put_block eye4 (take 9 (drop (i * 9) s))) [0..<n]"
    by blast
  have "matmul t r = Inr (rows_tensor [4, 4]
      (\<lambda>i. mm4 (put_column eye4 (take 3 (drop (i * 3) d))) (put_block eye4 (take 9 (drop (i * 9) s))))
      [0..<n])"
    unfolding t' r' by (rule matmul_rows) simp_all
  with m d show ?thesis by auto
qed

lemma expandable_rev_length: "expandable_rev xs ys \<Longrightarrow> length xs \<le> length ys"
  by (induction xs ys rule: expandable_rev.induct) simp_all

lemma expandable_rev_append:
  "length xs \<le> length ys \<Longrightarrow> expandable_rev xs (ys @ zs) = expandable_rev xs ys"
  by (induction xs ys rule: expandable_rev.induct) simp_all

lemma expandable_rev_snoc:
  "length xs = length ys \<Longrightarrow>
   expandable_rev (xs @ [a]) (ys @ [b]) = (expandable_rev xs ys \<and> (a = b \<or> a = 1))"
  by (induction xs ys rule: expandable_rev.induct) auto

lemma expandable_Cons_short:
  "length s \<le> length ts \<Longrightarrow> expandable s (t # ts) = expandable s ts"
  by (simp add: expandable_def expandable_rev_append)

lemma expandable_Cons_Cons:
  "length s = length ts \<Longrightarrow> expandable (a # s) (t # ts) = (expandable s ts \<and> (a = t \<or> a = 1))"
  by (simp add: expandable_def expandable_rev_snoc)

lemma expandable_length: "expandable s t \<Longrightarrow> length s \<le> length t"
  using expandable_rev_length [of "rev s" "rev t"] by (simp add: expandable_def)

lemma length_concat_replicate: "length (concat (replicate n xs)) = n * length xs"
  by (induction n) simp_all

lemma length_expand_data:
  "expandable s t \<Longrightarrow> length d = prod_list s \<Longrightarrow> length (expand_data s t d) = prod_list t"
proof (induction t arbitrary: s d)
  case Nil
  then show ?case using expandable_length [of s "[]"] by simp
next
  case (Cons t ts)
  show ?case
  proof (cases "length s \<le> length ts")
    case True
    with Cons.prems have "expandable s ts" by (simp add: expandable_Cons_short)
    then have "length (expand_data s ts d) = prod_list ts" using Cons.prems(2) by (rule Cons.IH)
    with True show ?thesis by (simp add: length_concat_replicate)
  next
    case False
    with expandable_length [OF Cons.prems(1)] have len: "length s = Suc (length ts)" by simp
    then obtain a s' where s: "s = a # s'" and len': "length s' = length ts"
      by (cases s) auto
    from Cons.prems(1) have e: "expandable s' ts" and a: "a = t \<or> a = 1"
      by (simp_all add: s expandable_Cons_Cons len')
    show ?thesis
    proof (cases "a = t")
      case True
      have d: "length d = t * prod_list s'" using Cons.prems(2) s True by simp
      have "length (expand_data s' ts c) = prod_list ts" if "c \<in> set (chunks (prod_list s') t d)" for c
        using e chunk_lengths [OF d that] by (rule Cons.IH)
      then have "map (\<lambda>c. length (expand_data s' ts c)) (chunks (prod_list s') t d) =
          replicate t (prod_list ts)"
        by (simp add: map_replicate_const cong: map_cong)
      then show ?thesis
        using False True s by (simp add: length_concat comp_def sum_list_replicate)
    next
      case False
      with a have a1: "a = 1" by simp
      have "length (expand_data s' ts d) = prod_list ts"
        using e Cons.prems(2) by (intro Cons.IH) (simp_all add: s a1)
      with \<open>\<not> length s \<le> length ts\<close> False s show ?thesis
        by (simp add: length_concat_replicate)
    qed
  qed
qed

lemma prod_list_dropWhile_one: "prod_list (dropWhile (\<lambda>k. k = Suc 0) s) = prod_list s"
  by (induction s) simp_all

lemma length_copy_src:
  assumes "copy_src t src = Inr d" "wf src"
  shows "length d = prod_list t"
  using assms
  by (auto simp: copy_src_def Let_def wf_def length_expand_data prod_list_dropWhile_one
        split: if_splits)

lemma camera_column3:
  "mm4 (put_column eye4 c) (put_block eye4 s) ! 3 = c ! 0"
  "mm4 (put_column eye4 c) (put_block eye4 s) ! 7 = c ! 1"
  "mm4 (put_column eye4 c) (put_block eye4 s) ! 11 = c ! 2"
  "mm4 (put_column eye4 c) (put_block eye4 s) ! 15 = Fin 1"
  by (simp_all add: mm4_def dot4_def put_column_def put_block_def eye4_def)

lemma camera_bottom:
  assumes "is_fin (mm4 (put_column eye4 c) (put_block eye4 s) ! j)"
    "is_fin (mm4 (put_column eye4 c) (put_block eye4 s) ! (4 + j))"
    "is_fin (mm4 (put_column eye4 c) (put_block eye4 s) ! (8 + j))" "j < 3"
  shows "mm4 (put_column eye4 c) (put_block eye4 s) ! (12 + j) = Fin 0"
proof -
  from \<open>j < 3\<close> consider "j = 0" | "j = 1" | "j = 2" by linarith
  then show ?thesis
  proof cases
    case 1
    with assms(1-3) show ?thesis
      by (auto simp: mm4_def dot4_def put_column_def put_block_def eye4_def
            fmul_zero_fin dest!: is_fin_fadd)
  next
    case 2
    with assms(1-3) show ?thesis
      by (auto simp: mm4_def dot4_def put_column_def put_block_def eye4_def
            fmul_zero_fin dest!: is_fin_fadd)
  next
    case 3
    with assms(1-3) show ?thesis
      by (auto simp: mm4_def dot4_def put_column_def put_block_def eye4_def
            fmul_zero_fin dest!: is_fin_fadd)
  qed
qed

lemma take_drop_concat_map:
  "(\<And>x. x \<in> set xs \<Longrightarrow> length (A x) = k) \<Longrightarrow> b < length xs \<Longrightarrow>
   take k (drop (b * k) (concat (map A xs))) = A (xs ! b)"
proof (induction xs arbitrary: b)
  case Nil
  then show ?case by simp
next
  case (Cons x xs)
  show ?case
  proof (cases b)
    case 0
    with Cons.prems show ?thesis by simp
  next
    case (Suc b')
    have "take k (drop (b' * k) (concat (map A xs))) = A (xs ! b')"
      using Cons.prems Suc by (intro Cons.IH) auto
    moreover have "length (A x) = k" using Cons.prems by simp
    ultimately show ?thesis using Suc by (simp add: add.commute)
  qed
qed

lemma select_rows:
  assumes "\<And>x. x \<in> set xs \<Longrightarrow> length (A x) = prod_list s" "b < length xs"
  shows "select b (rows_tensor s A xs) = rows_tensor s A [xs ! b]"
  using take_drop_concat_map [of xs A "prod_list s" b] assms
  by (simp add: select_def rows_tensor_def)

lemma select_batch3: "b < length rows \<Longrightarrow> select b (batch3 rows) = batch3 [rows ! b]"
  unfolding batch3_rows by (rule select_rows) simp_all

lemma binop_vec3_rows:
  assumes "\<And>x. x \<in> set xs \<Longrightarrow> length (A x) = 3"
  shows "binop f (vec3 a b c) (rows_tensor [3] A xs) =
         Inr (rows_tensor [3] (\<lambda>x. map2 f [a, b, c] (A x)) xs)"
proof -
  have e1: "expand_data [3] [3] [a, b, c] = [a, b, c]"
    by (rule expand_data_same) simp
  then have e2: "expand_data [3] [length xs, 3] [a, b, c] = concat (map (\<lambda>_. [a, b, c]) xs)"
    by (simp del: expand_data.simps add: expand_data_lead map_replicate_const)
  have e3: "expand_data [length xs, 3] [length xs, 3] (concat (map A xs)) = concat (map A xs)"
    by (rule expand_data_same) (simp add: length_concat_rows assms)
  have m: "map2 f (concat (map (\<lambda>_. [a, b, c]) xs)) (concat (map A xs)) =
      concat (map (\<lambda>x. map2 f [a, b, c] (A x)) xs)"
    by (rule map2_concat_map) (simp add: assms)
  have bs: "broadcast_shapes [3] [length xs, 3] = Some [length xs, 3]"
    by (simp add: broadcast_shapes_def)
  show ?thesis
    by (simp add: binop_def vec3_def rows_tensor_def bs e2 e3 m del: expand_data.simps)
qed

lemma forward_rows:
  assumes "\<And>x. x \<in> set xs \<Longrightarrow> length (A x) = 3"
  shows "get_forward_vector (vec3 a b c) h v r (Some (rows_tensor [3] A xs)) =
         Inr (rows_tensor [3] (\<lambda>x. normalize_row (map2 fsub [a, b, c] (A x))) xs)"
proof -
  have "normalize_vecs (rows_tensor [3] (\<lambda>x. map2 fsub [a, b, c] (A x)) xs) =
      Inr (rows_tensor [3] (\<lambda>x. normalize_row (map2 fsub [a, b, c] (A x))) xs)"
    by (rule normalize_vecs_rows) (simp add: assms)
  then show ?thesis
    by (simp add: get_forward_vector_def binop_vec3_rows assms)
qed

lemma get_origin_shape:
  assumes "get_origin h v r = Inr origin"
  shows "shape origin = [3]"
  using assms unfolding get_origin_def Let_def set_slice_def
  by (auto elim!: and_then_InrE simp: zeros_def)

lemma bshape_ones:
  "bshape xs ys = Some zs \<Longrightarrow> list_all (\<lambda>k. k = 1) zs \<Longrightarrow>
   list_all (\<lambda>k. k = 1) xs \<and> list_all (\<lambda>k. k = 1) ys"
  by (induction xs ys arbitrary: zs rule: bshape.induct) (auto split: if_splits)

lemma binop_single:
  assumes "binop f a b = Inr x" "single x"
  shows "single a \<and> single b"
proof -
  from assms(1) obtain zs where z: "bshape (rev (shape a)) (rev (shape b)) = Some zs"
    and x: "shape x = rev zs"
    by (auto simp: binop_def broadcast_shapes_def split: option.splits)
  from assms(2) x have "list_all (\<lambda>k. k = 1) zs" by (simp add: single_def list_all_iff)
  from bshape_ones [OF z this] show ?thesis by (simp add: single_def list_all_iff)
qed

lemma shape_unop [simp]: "shape (unop f t) = shape t"
  by (simp add: unop_def)

lemma single_unop [simp]: "single (unop f t) = single t"
  by (simp add: single_def)

lemma set_slice_single:
  assumes "set_slice dst a (Suc a) x = Inr y"
  shows "single x"
proof -
  let ?s = "dropWhile (\<lambda>n. n = 1) (shape x)"
  from assms have e: "expandable_rev (rev ?s) [1]"
    by (auto simp: set_slice_def copy_src_def Let_def expandable_def elim!: and_then_InrE
          split: if_splits)
  have "?s = []"
  proof (rule ccontr)
    assume n: "?s \<noteq> []"
    then have h: "hd ?s \<noteq> 1" using hd_dropWhile [of "\<lambda>n. n = 1" "shape x"] by simp
    from n obtain k ks where r: "rev ?s = k # ks" by (cases "rev ?s") auto
    with e have "k = 1" "ks = []" by (auto elim: expandable_rev.elims)
    with r have "?s = [1]" by (metis rev_rev_ident rev_singleton_conv)
    with h show False by simp
  qed
  then show ?thesis by (simp add: single_def list_all_iff dropWhile_eq_Nil_conv)
qed

lemma get_origin_single:
  assumes "get_origin h v r = Inr origin"
  shows "single h \<and> single v \<and> single r"
proof -
  let ?phi = "unop farccos (unop (\<lambda>x. fsub (Fin 1) (fmul (Fin 2) x))
      (unop (\<lambda>x. fdiv x (Fin pi)) (unop (fclamp (1 / 100000) (pi - 1 / 100000)) v)))"
  from assms obtain a x y where a: "binop fmul r (unop fsin ?phi) = Inr a"
    and x: "binop fmul a (unop fcos (unop (fsub (Fin pi)) h)) = Inr x"
    and s: "set_slice (zeros [3]) 0 1 x = Inr y"
    unfolding get_origin_def Let_def by (auto elim!: and_then_InrE)
  from s have "single x" using set_slice_single [of "zeros [3]" 0 x y] by simp
  from binop_single [OF x this] have "single a" "single h" by simp_all
  from binop_single [OF a \<open>single a\<close>] have "single r" "single v" by simp_all
  with \<open>single h\<close> show ?thesis by simp
qed

lemma binop_rows_vec3:
  assumes "\<And>x. x \<in> set xs \<Longrightarrow> length (A x) = 3"
  shows "binop f (rows_tensor [3] A xs) (vec3 a b c) =
         Inr (rows_tensor [3] (\<lambda>x. map2 f (A x) [a, b, c]) xs)"
proof -
  have e1: "expand_data [3] [3] [a, b, c] = [a, b, c]"
    by (rule expand_data_same) simp
  then have e2: "expand_data [3] [length xs, 3] [a, b, c] = concat (map (\<lambda>_. [a, b, c]) xs)"
    by (simp del: expand_data.simps add: expand_data_lead map_replicate_const)
  have e3: "expand_data [length xs, 3] [length xs, 3] (concat (map A xs)) = concat (map A xs)"
    by (rule expand_data_same) (simp add: length_concat_rows assms)
  have m: "map2 f (concat (map A xs)) (concat (map (\<lambda>_. [a, b, c]) xs)) =
      concat (map (\<lambda>x. map2 f (A x) [a, b, c]) xs)"
    by (rule map2_concat_map) (simp add: assms)
  have bs: "broadcast_shapes [length xs, 3] [3] = Some [length xs, 3]"
    by (simp add: broadcast_shapes_def)
  show ?thesis
    by (simp add: binop_def vec3_def rows_tensor_def bs e2 e3 m del: expand_data.simps)
qed

lemma sample_targets:
  assumes o: "get_origin (scalar h) (scalar v) (scalar r) = Inr (vec3 x y z)"
  shows "sample (scalar h) (scalar v) (rows_tensor [3] row3 ls) (scalar r) (vec3 ux uy uz) =
       Inr (rows_tensor [4, 4]
             (\<lambda>l. pose_matrix [ux, uy, uz] (normalize_row (map2 fsub (row3 l) [x, y, z])) [x, y, z]) ls)"
proof -
  let ?F = "\<lambda>l. normalize_row (map2 fsub (row3 l) [x, y, z])"
  have n: "normalize_vecs (rows_tensor [3] (\<lambda>l. map2 fsub (row3 l) [x, y, z]) ls) =
      Inr (rows_tensor [3] ?F ls)"
    by (rule normalize_vecs_rows) simp
  have f: "get_forward_vector (rows_tensor [3] row3 ls) (scalar h) (scalar v) (scalar r) (Some (vec3 x y z)) =
      Inr (rows_tensor [3] ?F ls)"
    by (simp add: get_forward_vector_def binop_rows_vec3 n)
  have c: "create_cam2world_matrix (rows_tensor [3] ?F ls) (vec3 x y z) (vec3 ux uy uz) =
      Inr (rows_tensor [4, 4] (\<lambda>l. pose_matrix [ux, uy, uz] (?F l) [x, y, z]) ls)"
    by (rule create_rows_gen [OF _ set_column_vec3]) simp
  show ?thesis
    by (simp add: sample_def o f c)
qed





lemma fmul_NaN_right [simp]: "fmul x NaN = NaN"
  by (cases x) simp_all

lemma fadd_NaN_right [simp]: "fadd x NaN = NaN"
  by (cases x) simp_all

lemma fdiv_NaN_right [simp]: "fdiv x NaN = NaN"
  by (cases x) simp_all




lemma fmul_NaN_left [simp]: "fmul NaN x = NaN"
  by simp





lemma list3_nth: "length d = 3 \<Longrightarrow> [d ! 0, d ! 1, d ! 2] = d"
  by (auto simp: length_Suc_conv numeral_3_eq_3)

lemma sample_scalar_explicit:
  assumes o: "get_origin (scalar h) (scalar v) (scalar r) = Inr (vec3 x y z)"
  shows "sample (scalar h) (scalar v) (vec3 lx ly lz) (scalar r) (vec3 ux uy uz) =
      Inr (rows_tensor [4, 4]
            (\<lambda>_. pose_matrix [ux, uy, uz] (normalize_row [fsub lx x, fsub ly y, fsub lz z]) [x, y, z])
            [0, 1, 2 :: nat])"
proof -
  let ?d = "normalize_row [fsub lx x, fsub ly y, fsub lz z]"
  have l: "length ?d = 3" by simp
  have d: "[?d ! 0, ?d ! 1, ?d ! 2] = ?d"
    by (rule list3_nth) (rule l)
  have f: "get_forward_vector (vec3 lx ly lz) (scalar h) (scalar v) (scalar r) (Some (vec3 x y z)) =
      Inr (vec3 (?d ! 0) (?d ! 1) (?d ! 2))"
    by (simp add: get_forward_vector_def binop_vec3 normalize_vecs_vec3 vec3_row [OF l])
  show ?thesis
    unfolding sample_def o and_then_simps f create_unbatched d ..
qed


subsection \<open>Errors depend on shapes only\<close>

lemma outcome_simps [simp]: "outcome (Inl e) = Inl e" "outcome (Inr t) = Inr (shape t)"
  by (simp_all add: outcome_def)





lemma copy_src_shapes:
  "shape a = shape a' \<Longrightarrow> (\<exists>d. copy_src s a = Inr d) = (\<exists>d. copy_src s a' = Inr d)"
  "copy_src s a = Inl e \<Longrightarrow> e = RuntimeError"
  by (auto simp: copy_src_def Let_def split: if_splits)















subsection \<open>The example of the docstring: a camera at \<open>(0, 0, 1)\<close> looking at the world origin\<close>

lemma example_origin:
  "get_origin (scalar (Fin (pi / 2))) (scalar (Fin (pi / 2))) (scalar (Fin 1)) =
   Inr (vec3 (Fin 0) (Fin 0) (Fin 1))"
proof -
  have p: "2 \<le> pi" by (rule pi_ge_two)
  then have m: "min (max (pi / 2) (1 / 100000)) (pi - 1 / 100000) = pi / 2"
    by (simp add: min_def max_def)
  have a: "arccos (1 - 2 * (pi / 2 / pi)) = pi / 2"
    by simp
  show ?thesis
    unfolding get_origin_Fin Let_def m a by simp
qed

lemma example_pose:
  "sample (scalar (Fin (pi / 2))) (scalar (Fin (pi / 2))) (vec3 (Fin 0) (Fin 0) (Fin 0)) (scalar (Fin 1))
     (vec3 (Fin 0) (Fin (- 1)) (Fin 0)) =
   Inr (rows_tensor [4, 4]
     (\<lambda>_. [Fin (- 1), Fin 0, Fin 0, Fin 0,
           Fin 0, Fin 1, Fin 0, Fin 0,
           Fin 0, Fin 0, Fin (- 1), Fin 1,
           Fin 0, Fin 0, Fin 0, Fin 1]) [0, 1, 2 :: nat])"
  by (simp add: sample_scalar_explicit [OF example_origin] fsub_def normalize_row_def vector_norm_def
      pose_matrix_def Let_def cross3_def stack_row_def put_block_def put_column_def eye4_def mm4_def dot4_def)

section \<open>The claims\<close>

subsection \<open>Claim C1\<close>



subsection \<open>Claim C2\<close>

text \<open>
  Claim C2. For finite scalar arguments \<^verbatim>\<open>get_origin\<close> clamps \<open>v\<close> to
  \<open>[1e-5, \<pi> - 1e-5]\<close>, computes \<open>\<phi> = arccos (1 - 2 (v / \<pi>))\<close> and returns
  \<open>(r sin \<phi> cos (\<pi> - t), r cos \<phi>, r sin \<phi> sin (\<pi> - t))\<close>; the vertical angles \<open>0\<close> and
  \<open>\<pi>\<close> give the results of \<open>1e-5\<close> and \<open>\<pi> - 1e-5\<close>, whatever the other two arguments.
\<close>

theorem get_origin_formula:
  "get_origin (scalar (Fin t)) (scalar (Fin v)) (scalar (Fin r)) =
     (let phi = arccos (1 - 2 * (min (max v (1 / 100000)) (pi - 1 / 100000) / pi))
      in Inr (vec3 (Fin (r * sin phi * cos (pi - t)))
                   (Fin (r * cos phi))
                   (Fin (r * sin phi * sin (pi - t)))))
   \<and> get_origin h (scalar (Fin 0)) radius = get_origin h (scalar (Fin (1 / 100000))) radius
   \<and> get_origin h (scalar (Fin pi)) radius = get_origin h (scalar (Fin (pi - 1 / 100000))) radius"
proof -
  have p: "2 \<le> pi" by (rule pi_ge_two)
  have lo: "unop (fclamp (1 / 100000) (pi - 1 / 100000)) (scalar (Fin 0)) =
        unop (fclamp (1 / 100000) (pi - 1 / 100000)) (scalar (Fin (1 / 100000)))"
    using p by (simp add: min_def max_def)
  have hi: "unop (fclamp (1 / 100000) (pi - 1 / 100000)) (scalar (Fin pi)) =
        unop (fclamp (1 / 100000) (pi - 1 / 100000)) (scalar (Fin (pi - 1 / 100000)))"
    using p by (simp add: min_def max_def)
  have "get_origin h (scalar (Fin 0)) radius = get_origin h (scalar (Fin (1 / 100000))) radius"
    by (simp only: get_origin_def Let_def lo)
  moreover have "get_origin h (scalar (Fin pi)) radius =
      get_origin h (scalar (Fin (pi - 1 / 100000))) radius"
    by (simp only: get_origin_def Let_def hi)
  ultimately show ?thesis
    using get_origin_Fin [of t v r] by blast
qed

subsection \<open>Claim C3\<close>



subsection \<open>Claim C4\<close>



subsection \<open>Claim C5\<close>

text \<open>
  Claim C5 as stated (the bottom row is \<open>(0, 0, 0, 1)\<close> for every input) fails where the
  up hint is parallel to the forward vector: the right and up columns are NaN, and so
  are the first two entries of the bottom row.
\<close>

theorem translation_column_counterexample:
  "create_cam2world_matrix (batch3 [(Fin 0, Fin (- 1), Fin 0)]) (batch3 [(Fin 0, Fin 0, Fin 1)])
          (vec3 (Fin 0) (Fin (- 1)) (Fin 0)) =
   Inr \<lparr>shape = [1, 4, 4],
        data = [NaN, NaN, Fin 0, Fin 0,
                NaN, NaN, Fin (- 1), Fin 0,
                NaN, NaN, Fin 0, Fin 1,
                NaN, NaN, Fin 0, Fin 1]\<rparr>"
proof -
  have "pose_matrix [Fin 0, Fin (- 1), Fin 0] [Fin 0, Fin (- 1), Fin 0] [Fin 0, Fin 0, Fin 1] =
      [NaN, NaN, Fin 0, Fin 0, NaN, NaN, Fin (- 1), Fin 0, NaN, NaN, Fin 0, Fin 1, NaN, NaN, Fin 0, Fin 1]"
    by (simp add: pose_matrix_def Let_def normalize_row_def vector_norm_def cross3_def fsub_def
          stack_row_def put_block_def put_column_def eye4_def mm4_def dot4_def)
  then show ?thesis
    using create_batch [of "[(Fin 0, Fin 0, Fin 1)]" "[(Fin 0, Fin (- 1), Fin 0)]"]
    by (simp add: rows_tensor_def)
qed

text \<open>
  Claim C5, amended. Whenever \<^verbatim>\<open>create_cam2world_matrix\<close> returns, rows 0 to 2 of
  column 3 of every matrix \<open>b\<close> of the result hold the origin argument (as the assignment
  \<^verbatim>\<open>translation_matrix[:, :3, 3] = origin\<close> broadcasts it over the batch) and entry
  \<open>(3, 3)\<close> is 1. When the 3x3 block of that matrix is finite, the first three entries
  of the bottom row are 0 and the matrix maps the point \<open>(0, 0, 0, 1)\<close> to the origin; a
  NaN or an infinity of the block (a degenerate input) reaches the bottom row through
  the product \<^verbatim>\<open>translation_matrix @ rotation_matrix\<close>, since \<open>0 * NaN = NaN\<close>.
\<close>

theorem translation_column:
  assumes "create_cam2world_matrix forward_vector origin up_vector = Inr m"
    and "wf origin" and "b < hd (shape m)"
  shows "\<exists>d. copy_src [hd (shape m), 3] origin = Inr d
     \<and> entry m b 0 3 = d ! (3 * b) \<and> entry m b 1 3 = d ! (3 * b + 1) \<and> entry m b 2 3 = d ! (3 * b + 2)
     \<and> entry m b 3 3 = Fin 1
     \<and> (list_all is_fin (column m b 0 @ column m b 1 @ column m b 2) \<longrightarrow>
          entry m b 3 0 = Fin 0 \<and> entry m b 3 1 = Fin 0 \<and> entry m b 3 2 = Fin 0
          \<and> transform m b [Fin 0, Fin 0, Fin 0, Fin 1] = [d ! (3 * b), d ! (3 * b + 1), d ! (3 * b + 2), Fin 1])"
proof -
  from create_general [OF assms(1)] obtain n d s where d: "copy_src [n, 3] origin = Inr d"
    and m: "m = rows_tensor [4, 4]
           (\<lambda>i. mm4 (put_column eye4 (take 3 (drop (i * 3) d))) (put_block eye4 (take 9 (drop (i * 9) s))))
           [0..<n]"
    by blast
  let ?P = "\<lambda>i. mm4 (put_column eye4 (take 3 (drop (i * 3) d))) (put_block eye4 (take 9 (drop (i * 9) s)))"
  have n: "hd (shape m) = n" by (simp add: m)
  with assms(3) have b: "b < n" by simp
  have len: "length d = n * 3" using length_copy_src [OF d assms(2)] by simp
  have e: "entry m b i j = ?P b ! (4 * i + j)" if "4 * i + j < 16" for i j
    unfolding m using entry_rows [of "[0..<n]" ?P b i j] that b by simp
  have t: "take 3 (drop (b * 3) d) ! i = d ! (3 * b + i)" if "i < 3" for i
    using that b len by (simp add: mult.commute)
  have c: "entry m b 0 3 = d ! (3 * b)" "entry m b 1 3 = d ! (3 * b + 1)"
    "entry m b 2 3 = d ! (3 * b + 2)" "entry m b 3 3 = Fin 1"
    using t [of 0] t [of 1] t [of 2] by (simp_all add: e camera_column3)
  have z: "entry m b 3 j = Fin 0"
    if "is_fin (entry m b 0 j)" "is_fin (entry m b 1 j)" "is_fin (entry m b 2 j)" "j < 3" for j
    using that camera_bottom [of "take 3 (drop (b * 3) d)" "take 9 (drop (b * 9) s)" j] by (simp add: e)
  have "entry m b 3 0 = Fin 0 \<and> entry m b 3 1 = Fin 0 \<and> entry m b 3 2 = Fin 0
      \<and> transform m b [Fin 0, Fin 0, Fin 0, Fin 1] = [d ! (3 * b), d ! (3 * b + 1), d ! (3 * b + 2), Fin 1]"
    if f: "list_all is_fin (column m b 0 @ column m b 1 @ column m b 2)"
  proof -
    from f have fin: "is_fin (entry m b 0 0)" "is_fin (entry m b 1 0)" "is_fin (entry m b 2 0)"
      "is_fin (entry m b 0 1)" "is_fin (entry m b 1 1)" "is_fin (entry m b 2 1)"
      "is_fin (entry m b 0 2)" "is_fin (entry m b 1 2)" "is_fin (entry m b 2 2)"
      by (simp_all add: column_def)
    have zero: "fmul x (Fin 0) = Fin 0" if "is_fin x" for x
      using that by (cases x) simp_all
    have bottom: "entry m b 3 0 = Fin 0" "entry m b 3 1 = Fin 0" "entry m b 3 2 = Fin 0"
      using z [of 0] z [of 1] z [of 2] fin by simp_all
    have dot: "dot4 [x, y, w, e] [Fin 0, Fin 0, Fin 0, Fin 1] = e"
      if "is_fin x" "is_fin y" "is_fin w" for x y w e
      using that by (simp add: dot4_def zero)
    have "transform m b [Fin 0, Fin 0, Fin 0, Fin 1] =
        [entry m b 0 3, entry m b 1 3, entry m b 2 3, entry m b 3 3]"
      unfolding transform_def list.map
      by (simp only: dot fin bottom is_fin.simps)
    then have "transform m b [Fin 0, Fin 0, Fin 0, Fin 1] =
        [d ! (3 * b), d ! (3 * b + 1), d ! (3 * b + 2), Fin 1]"
      by (simp only: c)
    with bottom show ?thesis by simp
  qed
  with d c n show ?thesis by simp
qed

theorem translation_column_witness:
  "\<exists>m. create_cam2world_matrix (batch3 [(Fin 0, Fin 0, Fin (- 1))]) (batch3 [(Fin 0, Fin 0, Fin 1)])
          (vec3 (Fin 0) (Fin (- 1)) (Fin 0)) = Inr m
     \<and> entry m 0 0 3 = Fin 0 \<and> entry m 0 1 3 = Fin 0 \<and> entry m 0 2 3 = Fin 1 \<and> entry m 0 3 3 = Fin 1
     \<and> list_all is_fin (column m 0 0 @ column m 0 1 @ column m 0 2)
     \<and> entry m 0 3 0 = Fin 0 \<and> entry m 0 3 1 = Fin 0 \<and> entry m 0 3 2 = Fin 0
     \<and> transform m 0 [Fin 0, Fin 0, Fin 0, Fin 1] = [Fin 0, Fin 0, Fin 1, Fin 1]"
proof -
  let ?o = "batch3 [(Fin 0, Fin 0, Fin 1)]"
  let ?c = "create_cam2world_matrix (batch3 [(Fin 0, Fin 0, Fin (- 1))]) ?o (vec3 (Fin 0) (Fin (- 1)) (Fin 0))"
  obtain m r1 r2 r3 u1 u2 u3 f1 f2 f3 where m: "?c = Inr m"
    and c: "column m 0 0 = [Fin r1, Fin r2, Fin r3]" "column m 0 1 = [Fin u1, Fin u2, Fin u3]"
      "column m 0 2 = [Fin f1, Fin f2, Fin f3]"
    using create_batch_row [of "[(Fin 0, Fin 0, Fin 1)]" "[(Fin 0, Fin 0, Fin (- 1))]" 0
        0 0 "- 1" 0 0 1 0 "- 1" 0]
    by (auto simp: vector_norm_Fin3 cross3_Fin)
  have s: "hd (shape m) = 1"
    using m create_batch [of "[(Fin 0, Fin 0, Fin 1)]" "[(Fin 0, Fin 0, Fin (- 1))]"] by auto
  have w: "wf ?o" by (simp add: wf_def batch3_def)
  have d: "copy_src [1, 3] ?o = Inr [Fin 0, Fin 0, Fin 1]"
    using copy_src_batch3 [of "[Fin 0, Fin 0, Fin 1]" 1] by (simp add: batch3_def)
  have f: "list_all is_fin (column m 0 0 @ column m 0 1 @ column m 0 2)"
    by (simp add: c c(2) [unfolded One_nat_def])
  from translation_column [OF m w, of 0] s d f m show ?thesis
    by auto
qed

subsection \<open>Claim C6\<close>

text \<open>
  Claim C6 as stated (every function broadcasts, \<^verbatim>\<open>get_origin\<close> given batched angles
  included) fails for a batch of two angles: the assignment of two values to the slice
  \<^verbatim>\<open>camera_origins[0:1]\<close> of one element raises.
\<close>

theorem batch_broadcast_counterexample:
  "get_origin \<lparr>shape = [2], data = [Fin 0, Fin 1]\<rparr> \<lparr>shape = [2], data = [Fin 1, Fin 2]\<rparr>
     (scalar (Fin 1)) = Inl RuntimeError"
  by (simp add: get_origin_def Let_def binop_def unop_def scalar_def broadcast_shapes_def
        set_slice_def copy_src_def expandable_def)

text \<open>
  Claim C6, amended. \<^verbatim>\<open>get_forward_vector\<close> broadcasts one target against \<open>N\<close> origins,
  \<^verbatim>\<open>create_cam2world_matrix\<close> one up hint (and one origin) against \<open>N\<close> forward vectors, and
  \<^verbatim>\<open>LookAtPoseSampler.sample\<close> one origin against \<open>N\<close> targets: the result has batch size
  \<open>N\<close>, and its row \<open>b\<close> is what the function returns for row \<open>b\<close> alone. \<^verbatim>\<open>get_origin\<close> does
  not broadcast: where it returns, the angles and the radius have one element each and
  the result is one 3-vector.
\<close>

theorem batch_broadcast:
  assumes "b < length os" and "length fs = length os" and "b < length ls"
  shows "(\<exists>fw. get_forward_vector (vec3 lx ly lz) h v r (Some (batch3 os)) = Inr fw
            \<and> shape fw = [length os, 3]
            \<and> get_forward_vector (vec3 lx ly lz) h v r (Some (select b (batch3 os))) = Inr (select b fw))
     \<and> (\<exists>m. create_cam2world_matrix (batch3 fs) (batch3 os) (vec3 ux uy uz) = Inr m
            \<and> shape m = [length os, 4, 4]
            \<and> create_cam2world_matrix (select b (batch3 fs)) (select b (batch3 os)) (vec3 ux uy uz) =
                Inr (select b m))
     \<and> (\<exists>m. create_cam2world_matrix (batch3 fs) (vec3 ox oy oz) (vec3 ux uy uz) = Inr m
            \<and> shape m = [length os, 4, 4]
            \<and> create_cam2world_matrix (select b (batch3 fs)) (vec3 ox oy oz) (vec3 ux uy uz) =
                Inr (select b m))
     \<and> (\<exists>m. sample (scalar a) (scalar p) (batch3 ls) (scalar q) (vec3 ux uy uz) = Inr m
            \<and> shape m = [length ls, 4, 4]
            \<and> sample (scalar a) (scalar p) (select b (batch3 ls)) (scalar q) (vec3 ux uy uz) =
                Inr (select b m))
     \<and> (\<forall>origin. get_origin hh vv rr = Inr origin \<longrightarrow>
            shape origin = [3] \<and> single hh \<and> single vv \<and> single rr)"
proof (intro conjI)
  let ?F = "\<lambda>x. normalize_row (map2 fsub [lx, ly, lz] (row3 x))"
  have "get_forward_vector (vec3 lx ly lz) h v r (Some (rows_tensor [3] row3 xs)) =
      Inr (rows_tensor [3] ?F xs)" for xs
    by (rule forward_rows) simp
  from this [of os] this [of "[os ! b]"] assms(1)
  show "\<exists>fw. get_forward_vector (vec3 lx ly lz) h v r (Some (batch3 os)) = Inr fw
            \<and> shape fw = [length os, 3]
            \<and> get_forward_vector (vec3 lx ly lz) h v r (Some (select b (batch3 os))) = Inr (select b fw)"
    by (simp add: select_batch3 batch3_rows select_rows)
next
  let ?P = "\<lambda>x. pose_matrix [ux, uy, uz] (row3 (fst x)) (row3 (snd x))"
  have "create_cam2world_matrix (batch3 fs) (batch3 os) (vec3 ux uy uz) = Inr (rows_tensor [4, 4] ?P (zip fs os))"
    by (rule create_batch) (simp add: assms)
  moreover have "create_cam2world_matrix (batch3 [fs ! b]) (batch3 [os ! b]) (vec3 ux uy uz) =
      Inr (rows_tensor [4, 4] ?P (zip [fs ! b] [os ! b]))"
    by (rule create_batch) simp
  moreover have "select b (rows_tensor [4, 4] ?P (zip fs os)) = rows_tensor [4, 4] ?P [zip fs os ! b]"
    by (rule select_rows) (simp_all add: assms)
  ultimately
  show "\<exists>m. create_cam2world_matrix (batch3 fs) (batch3 os) (vec3 ux uy uz) = Inr m
            \<and> shape m = [length os, 4, 4]
            \<and> create_cam2world_matrix (select b (batch3 fs)) (select b (batch3 os)) (vec3 ux uy uz) =
                Inr (select b m)"
    using assms by (simp add: select_batch3)
next
  let ?P = "\<lambda>x. pose_matrix [ux, uy, uz] (row3 x) [ox, oy, oz]"
  have "create_cam2world_matrix (batch3 xs) (vec3 ox oy oz) (vec3 ux uy uz) = Inr (rows_tensor [4, 4] ?P xs)" for xs
    by (rule create_single_origin)
  moreover have "select b (rows_tensor [4, 4] ?P fs) = rows_tensor [4, 4] ?P [fs ! b]"
    by (rule select_rows) (simp_all add: assms)
  ultimately
  show "\<exists>m. create_cam2world_matrix (batch3 fs) (vec3 ox oy oz) (vec3 ux uy uz) = Inr m
            \<and> shape m = [length os, 4, 4]
            \<and> create_cam2world_matrix (select b (batch3 fs)) (vec3 ox oy oz) (vec3 ux uy uz) =
                Inr (select b m)"
    using assms by (simp add: select_batch3)
next
  obtain x y z where o: "get_origin (scalar a) (scalar p) (scalar q) = Inr (vec3 x y z)"
    using get_origin_scalar_vec3 by blast
  note s = sample_targets [OF o, of _ ux uy uz]
  let ?P = "\<lambda>l. pose_matrix [ux, uy, uz] (normalize_row (map2 fsub (row3 l) [x, y, z])) [x, y, z]"
  have "select b (rows_tensor [4, 4] ?P ls) = rows_tensor [4, 4] ?P [ls ! b]"
    by (rule select_rows) (simp_all add: assms)
  with s [of ls] s [of "[ls ! b]"]
  show "\<exists>m. sample (scalar a) (scalar p) (batch3 ls) (scalar q) (vec3 ux uy uz) = Inr m
            \<and> shape m = [length ls, 4, 4]
            \<and> sample (scalar a) (scalar p) (select b (batch3 ls)) (scalar q) (vec3 ux uy uz) =
                Inr (select b m)"
    using assms by (simp add: select_batch3 batch3_rows select_rows)
next
  show "\<forall>origin. get_origin hh vv rr = Inr origin \<longrightarrow>
            shape origin = [3] \<and> single hh \<and> single vv \<and> single rr"
    using get_origin_shape get_origin_single by blast
qed

theorem batch_broadcast_witness:
  "(\<exists>fw. get_forward_vector (vec3 (Fin 0) (Fin 0) (Fin 0)) (scalar (Fin 0)) (scalar (Fin 1)) (scalar (Fin 1))
            (Some (batch3 [(Fin 0, Fin 0, Fin 1), (Fin 1, Fin 0, Fin 0)])) = Inr fw
        \<and> shape fw = [2, 3]
        \<and> get_forward_vector (vec3 (Fin 0) (Fin 0) (Fin 0)) (scalar (Fin 0)) (scalar (Fin 1)) (scalar (Fin 1))
            (Some (select 1 (batch3 [(Fin 0, Fin 0, Fin 1), (Fin 1, Fin 0, Fin 0)]))) = Inr (select 1 fw))
   \<and> (\<exists>origin. get_origin (scalar (Fin 0)) (scalar (Fin 1)) (scalar (Fin 1)) = Inr origin
        \<and> shape origin = [3] \<and> single (scalar (Fin 0)))"
proof -
  obtain x y z where o: "get_origin (scalar (Fin 0)) (scalar (Fin 1)) (scalar (Fin 1)) = Inr (vec3 x y z)"
    using get_origin_scalar_vec3 by blast
  show ?thesis
    using batch_broadcast [where b = 1 and os = "[(Fin 0, Fin 0, Fin 1), (Fin 1, Fin 0, Fin 0)]"
        and fs = "[(Fin 0, Fin 0, Fin (- 1)), (Fin (- 1), Fin 0, Fin 0)]"
        and ls = "[(Fin 0, Fin 0, Fin 0), (Fin 1, Fin 1, Fin 1)]"
        and lx = "Fin 0" and ly = "Fin 0" and lz = "Fin 0"
        and h = "scalar (Fin 0)" and v = "scalar (Fin 1)" and r = "scalar (Fin 1)"
        and hh = "scalar (Fin 0)" and vv = "scalar (Fin 1)" and rr = "scalar (Fin 1)"] o
    by (simp add: numeral_2_eq_2)
qed

subsection \<open>Claim C7\<close>

text \<open>
  Claim C7. Whatever \<^verbatim>\<open>create_cam2world_matrix\<close> returns has the trailing shape \<open>(4, 4)\<close>:
  the function asserts it before it returns. The assertion never fails, since the
  product of two batches of 4x4 matrices is one.
\<close>

theorem result_shape:
  "(create_cam2world_matrix forward_vector origin up_vector = Inr m \<longrightarrow> drop 1 (shape m) = [4, 4])
   \<and> create_cam2world_matrix forward_vector origin up_vector \<noteq> Inl AssertionError"
proof
  show "create_cam2world_matrix forward_vector origin up_vector = Inr m \<longrightarrow> drop 1 (shape m) = [4, 4]"
    unfolding create_cam2world_matrix_def Let_def
    by (auto elim!: and_then_InrE split: list.splits if_splits)
  show "create_cam2world_matrix forward_vector origin up_vector \<noteq> Inl AssertionError"
    unfolding create_cam2world_matrix_def
    by (auto simp: and_then_Inl Let_def create_not_assert_aux dest: matmul_shape split: list.splits if_splits)
qed

theorem result_shape_witness:
  "\<exists>m. create_cam2world_matrix (batch3 [(Fin 0, Fin 0, Fin (- 1))]) (batch3 [(Fin 0, Fin 0, Fin 1)])
          (vec3 (Fin 0) (Fin (- 1)) (Fin 0)) = Inr m
     \<and> drop 1 (shape m) = [4, 4]"
proof -
  obtain m where m: "create_cam2world_matrix (batch3 [(Fin 0, Fin 0, Fin (- 1))])
      (batch3 [(Fin 0, Fin 0, Fin 1)]) (vec3 (Fin 0) (Fin (- 1)) (Fin 0)) = Inr m"
    using create_batch [of "[(Fin 0, Fin 0, Fin 1)]" "[(Fin 0, Fin 0, Fin (- 1))]"] by simp
  with result_shape [of "batch3 [(Fin 0, Fin 0, Fin (- 1))]" "batch3 [(Fin 0, Fin 0, Fin 1)]"
      "vec3 (Fin 0) (Fin (- 1)) (Fin 0)" m]
  show ?thesis by blast
qed

subsection \<open>Claim C8\<close>




subsection \<open>Claim C9\<close>

text \<open>
  Claim C9. \<^verbatim>\<open>get_forward_vector\<close> without an origin is \<^verbatim>\<open>get_forward_vector\<close> with the
  origin that \<^verbatim>\<open>get_origin\<close> returns for the same angles and radius (and fails where
  \<^verbatim>\<open>get_origin\<close> fails); with an origin it is \<^verbatim>\<open>normalize_vecs (lookat - origin)\<close>, and
  the angles and the radius have no effect.
\<close>

theorem forward_vector_origin:
  "get_forward_vector lookat h v r None =
     and_then (get_origin h v r) (\<lambda>origin. get_forward_vector lookat h v r (Some origin))
   \<and> get_forward_vector lookat h v r (Some origin) = and_then (binop fsub lookat origin) normalize_vecs
   \<and> get_forward_vector lookat h v r (Some origin) = get_forward_vector lookat h' v' r' (Some origin)"
  by (cases "get_origin h v r") (simp_all add: get_forward_vector_def)

subsection \<open>Claim C10\<close>

text \<open>
  Claim C10. For scalar angles and radius, a 3-vector target and a 3-vector up hint,
  \<^verbatim>\<open>LookAtPoseSampler.sample\<close> returns a tensor of shape \<open>(3, 4, 4)\<close> that holds the same
  4x4 matrix three times: the batch size is the number of components of the forward
  vector, \<^verbatim>\<open>forward_vector.shape[0]\<close>.
\<close>

theorem sample_scalar_batch_of_three:
  "\<exists>m p. sample (scalar h) (scalar v) (vec3 lx ly lz) (scalar r) (vec3 ux uy uz) = Inr m
     \<and> shape m = [3, 4, 4] \<and> length p = 16 \<and> data m = p @ p @ p"
proof -
  obtain p where "sample (scalar h) (scalar v) (vec3 lx ly lz) (scalar r) (vec3 ux uy uz) =
      Inr (rows_tensor [4, 4] (\<lambda>_. p) [0, 1, 2 :: nat])" and "length p = 16"
    using sample_scalar [of h v r lx ly lz ux uy uz] length_pose_matrix by blast
  then show ?thesis
    by (intro exI [of _ "rows_tensor [4, 4] (\<lambda>_. p) [0, 1, 2 :: nat]"] exI [of _ p])
       (simp add: rows_tensor_def)
qed



end
